theory Spec2Isabelle
  imports Complex_Main "HOL-Library.Word"
begin

section \<open>Astral: scroll-driven orbital scene engine\<close>

text \<open>
  The development embeds the numeric core of \<^verbatim>\<open>src/src/Astral.jsx\<close>: the math
  helpers, the orbital kinematics, the scroll tracker \<^verbatim>\<open>useLocoScroll\<close> and the
  per-frame update of \<^verbatim>\<open>AstralEngine\<close> (camera rig, collision state, debris
  particles, Kessler cloud opacity).

  JavaScript numbers are modelled as HOL reals: every arithmetic operation is the exact
  one, so rounding of IEEE doubles is outside the model. Fields that only feed the
  renderer (mesh visibility, materials, colours, GPU buffers) are left out of the state.
\<close>

subsection \<open>Constants\<close>

definition EARTH_RADIUS :: real where "EARTH_RADIUS = 22 / 10"
definition CAM_DIST :: real where "CAM_DIST = 85 / 10"
definition SAT_POOL :: int where "SAT_POOL = 200"
definition DEBRIS_N :: nat where "DEBRIS_N = 1400"

text \<open>\<^verbatim>\<open>PHASES = { P0: 0, P1: 0.2, P2: 0.4, P3: 0.6, P4: 0.8 }\<close>\<close>

definition P0 :: real where "P0 = 0"
definition P1 :: real where "P1 = 2 / 10"
definition P2 :: real where "P2 = 4 / 10"
definition P3 :: real where "P3 = 6 / 10"
definition P4 :: real where "P4 = 8 / 10"

text \<open>\<^verbatim>\<open>FOV_MAP = [50, 62, 36, 30, 44]\<close>, read at a chapter index in 0..4.\<close>

definition FOV_MAP :: "nat \<Rightarrow> real" where
  "FOV_MAP ch = (if ch = 0 then 50 else if ch = 1 then 62 else if ch = 2 then 36
                 else if ch = 3 then 30 else 44)"

subsection \<open>Math helpers\<close>

text \<open>\<^verbatim>\<open>clamp = (v, lo = 0, hi = 1) => Math.max(lo, Math.min(hi, v))\<close>; the calls that
  rely on the default bounds are written with \<open>0\<close> and \<open>1\<close>.\<close>

definition clamp :: "real \<Rightarrow> real \<Rightarrow> real \<Rightarrow> real" where
  "clamp v lo hi = max lo (min hi v)"

definition remap :: "real \<Rightarrow> real \<Rightarrow> real \<Rightarrow> real" where
  "remap v a b = clamp ((v - a) / (b - a)) 0 1"

definition lerp :: "real \<Rightarrow> real \<Rightarrow> real \<Rightarrow> real" where
  "lerp a b t = a + (b - a) * t"

definition smootherstep :: "real \<Rightarrow> real" where
  "smootherstep t = t * t * t * (t * (t * 6 - 15) + 10)"

text \<open>\<^verbatim>\<open>outExpo = t => t === 1 ? 1 : 1 - Math.pow(2, -10 * t)\<close>\<close>

definition outExpo :: "real \<Rightarrow> real" where
  "outExpo t = (if t = 1 then 1 else 1 - 2 powr (- 10 * t))"

text \<open>\<^verbatim>\<open>Math.round\<close>: the nearest integer, ties towards plus infinity.\<close>

definition Math_round :: "real \<Rightarrow> int" where
  "Math_round x = \<lfloor>x + 1 / 2\<rfloor>"

subsection \<open>Chapters\<close>

text \<open>\<^verbatim>\<open>getChapter\<close>; \<^verbatim>\<open>AstralEngine._loop\<close> and \<^verbatim>\<open>useLocoScroll\<close> inline the same
  chain of comparisons.\<close>

definition getChapter :: "real \<Rightarrow> nat" where
  "getChapter p = (if p < P1 then 0 else if p < P2 then 1 else if p < P3 then 2
                   else if p < P4 then 3 else 4)"

subsection \<open>Vectors and orbital kinematics\<close>

record vec3 =
  vx :: real
  vy :: real
  vz :: real

definition Vector3 :: "real \<Rightarrow> real \<Rightarrow> real \<Rightarrow> vec3" where
  "Vector3 x y z = \<lparr>vx = x, vy = y, vz = z\<rparr>"

definition vlength :: "vec3 \<Rightarrow> real" where
  "vlength v = sqrt (vx v * vx v + vy v * vy v + vz v * vz v)"

definition addVectors :: "vec3 \<Rightarrow> vec3 \<Rightarrow> vec3" where
  "addVectors a b = Vector3 (vx a + vx b) (vy a + vy b) (vz a + vz b)"

definition multiplyScalar :: "vec3 \<Rightarrow> real \<Rightarrow> vec3" where
  "multiplyScalar v s = Vector3 (vx v * s) (vy v * s) (vz v * s)"

text \<open>Euclidean distance between two points (\<^verbatim>\<open>Vector3.distanceTo\<close>).\<close>

definition distanceTo :: "vec3 \<Rightarrow> vec3 \<Rightarrow> real" where
  "distanceTo a b = sqrt ((vx a - vx b) * (vx a - vx b) + (vy a - vy b) * (vy a - vy b)
                          + (vz a - vz b) * (vz a - vz b))"

definition orbitPos :: "real \<Rightarrow> real \<Rightarrow> real \<Rightarrow> real \<Rightarrow> vec3" where
  "orbitPos radius inc asc angle =
     (let x0 = cos angle * radius;
          z0 = sin angle * radius;
          y1 = - z0 * sin inc;
          z1 = z0 * cos inc
      in Vector3 (x0 * cos asc - z1 * sin asc) y1 (x0 * sin asc + z1 * cos asc))"

text \<open>An orbital body: the fields \<^verbatim>\<open>r, inc, asc, phase, speed\<close> of a satellite record.\<close>

record sat =
  sat_r :: real
  sat_inc :: real
  sat_asc :: real
  sat_phase :: real
  sat_speed :: real

definition satPos :: "sat \<Rightarrow> real \<Rightarrow> vec3" where
  "satPos s t = orbitPos (sat_r s) (sat_inc s) (sat_asc s) (sat_phase s + sat_speed s * t)"

text \<open>The \<^verbatim>\<open>r\<close> fields of \<^verbatim>\<open>ORBIT_DEFS\<close>; \<^verbatim>\<open>generateSats\<close> gives every pool satellite the
  radius \<^verbatim>\<open>EARTH_RADIUS * o.r\<close> of one of these orbits.\<close>

definition ORBIT_DEFS_r :: "real list" where
  "ORBIT_DEFS_r = [122 / 100, 130 / 100, 136 / 100, 142 / 100, 148 / 100, 154 / 100,
                   160 / 100, 166 / 100, 172 / 100, 178 / 100, 184 / 100, 190 / 100]"

subsection \<open>Satellite visible count\<close>

text \<open>The expression bound to \<^verbatim>\<open>vis\<close> in \<^verbatim>\<open>AstralEngine._sats\<close>, with the chapter
  computed from the same progress value as \<^verbatim>\<open>_loop\<close> does.\<close>

definition vis :: "nat \<Rightarrow> real \<Rightarrow> int" where
  "vis ch progress =
     (if ch = 0 then 4
      else if ch = 1 then Math_round (lerp 4 (real_of_int SAT_POOL) (outExpo (remap progress P1 P2)))
      else SAT_POOL)"

definition visibleCount :: "real \<Rightarrow> int" where
  "visibleCount p = vis (getChapter p) p"

subsection \<open>Scroll tracker\<close>

text \<open>The refs of \<^verbatim>\<open>useLocoScroll\<close>: \<^verbatim>\<open>raw\<close>, \<^verbatim>\<open>smooth\<close>, \<^verbatim>\<open>velocity\<close> and the
  chapter state.\<close>

record scroll =
  sc_raw :: real
  sc_smooth :: real
  sc_velocity :: real
  sc_chapter :: nat

definition scroll_init :: scroll where
  "scroll_init = \<lparr>sc_raw = 0, sc_smooth = 0, sc_velocity = 0, sc_chapter = 0\<rparr>"

text \<open>\<^verbatim>\<open>onScroll\<close>: \<open>scrollY\<close> is \<^verbatim>\<open>window.scrollY\<close> and \<open>mx\<close> is
  \<^verbatim>\<open>el.scrollHeight - window.innerHeight\<close>.\<close>

definition onScroll :: "real \<Rightarrow> real \<Rightarrow> scroll \<Rightarrow> scroll" where
  "onScroll scrollY mx s = s\<lparr>sc_raw := (if mx > 0 then clamp (scrollY / mx) 0 1 else 0)\<rparr>"

text \<open>One run of \<^verbatim>\<open>tick\<close>.\<close>

definition tick :: "scroll \<Rightarrow> scroll" where
  "tick s =
     (let delta = sc_raw s - sc_smooth s;
          speed = (if \<bar>delta\<bar> > 6 / 100 then 55 / 1000 else 28 / 1000);
          prev = sc_smooth s;
          sm1 = sc_smooth s + delta * speed;
          vel = sm1 - prev;
          sm2 = (if \<bar>delta\<bar> < 3 / 100000 then sc_raw s else sm1)
      in s\<lparr>sc_smooth := sm2, sc_velocity := vel, sc_chapter := getChapter sm2\<rparr>)"

text \<open>\<open>n\<close> animation frames with no scroll event in between.\<close>

fun ticks :: "nat \<Rightarrow> scroll \<Rightarrow> scroll" where
  "ticks 0 s = s"
| "ticks (Suc n) s = ticks n (tick s)"

text \<open>What can happen to the tracker: a scroll event, with the values \<^verbatim>\<open>onScroll\<close> reads,
  or an animation frame.\<close>

datatype scroll_event = Scroll real real | Frame

fun scroll_step :: "scroll \<Rightarrow> scroll_event \<Rightarrow> scroll" where
  "scroll_step s (Scroll scrollY mx) = onScroll scrollY mx s"
| "scroll_step s Frame = tick s"

definition scroll_run :: "scroll_event list \<Rightarrow> scroll \<Rightarrow> scroll" where
  "scroll_run evs s = foldl scroll_step s evs"

text \<open>Both tracked values lie in the unit interval.\<close>

definition unit_scroll :: "scroll \<Rightarrow> bool" where
  "unit_scroll s \<longleftrightarrow> 0 \<le> sc_raw s \<and> sc_raw s \<le> 1 \<and> 0 \<le> sc_smooth s \<and> sc_smooth s \<le> 1"

subsection \<open>Seeded generator\<close>

text \<open>\<^verbatim>\<open>prng\<close>: \<^verbatim>\<open>s = (s * 1664525 + 1013904223) & 0xffffffff; return (s >>> 0) / 0xffffffff\<close>.
  The products stay below \<open>2^53\<close>, so the double arithmetic is exact and the masked
  state is the 32-bit word.\<close>

definition prng_next :: "32 word \<Rightarrow> 32 word" where
  "prng_next s = s * 1664525 + 1013904223"

definition prng_out :: "32 word \<Rightarrow> real" where
  "prng_out s = real (unat s) / 4294967295"

subsection \<open>THREE.js vector and spherical helpers\<close>

text \<open>\<^verbatim>\<open>Vector3.normalize\<close> divides by \<^verbatim>\<open>this.length() || 1\<close>, so the zero vector
  stays zero; \<^verbatim>\<open>setLength(l)\<close> is \<^verbatim>\<open>normalize().multiplyScalar(l)\<close>.\<close>

definition normalize :: "vec3 \<Rightarrow> vec3" where
  "normalize v = multiplyScalar v (1 / (if vlength v = 0 then 1 else vlength v))"

definition setLength :: "vec3 \<Rightarrow> real \<Rightarrow> vec3" where
  "setLength v l = multiplyScalar (normalize v) l"

definition crossVectors :: "vec3 \<Rightarrow> vec3 \<Rightarrow> vec3" where
  "crossVectors a b = Vector3 (vy a * vz b - vz a * vy b) (vz a * vx b - vx a * vz b)
                              (vx a * vy b - vy a * vx b)"

record spherical =
  sph_radius :: real
  sph_phi :: real
  sph_theta :: real

text \<open>\<^verbatim>\<open>Math.atan2(y, x)\<close> on finite arguments, signed zeros apart.\<close>

definition atan2 :: "real \<Rightarrow> real \<Rightarrow> real" where
  "atan2 y x =
     (if 0 < x then arctan (y / x)
      else if x < 0 then (if 0 \<le> y then arctan (y / x) + pi else arctan (y / x) - pi)
      else if 0 < y then pi / 2 else if y < 0 then - (pi / 2) else 0)"

text \<open>\<^verbatim>\<open>Spherical.setFromVector3\<close>.\<close>

definition setFromVector3 :: "vec3 \<Rightarrow> spherical" where
  "setFromVector3 v =
     (let rad = vlength v
      in if rad = 0 then \<lparr>sph_radius = rad, sph_phi = 0, sph_theta = 0\<rparr>
         else \<lparr>sph_radius = rad, sph_phi = arccos (clamp (vy v / rad) (- 1) 1),
               sph_theta = atan2 (vx v) (vz v)\<rparr>)"

text \<open>\<^verbatim>\<open>Vector3.setFromSpherical\<close>.\<close>

definition setFromSpherical :: "spherical \<Rightarrow> vec3" where
  "setFromSpherical sp =
     (let sinPhiRadius = sin (sph_phi sp) * sph_radius sp
      in Vector3 (sinPhiRadius * sin (sph_theta sp)) (cos (sph_phi sp) * sph_radius sp)
                 (sinPhiRadius * cos (sph_theta sp)))"

subsection \<open>Engine state\<close>

text \<open>A debris particle: \<^verbatim>\<open>pos\<close>, \<^verbatim>\<open>vel\<close>, \<^verbatim>\<open>life\<close>, \<^verbatim>\<open>active\<close>.\<close>

record particle =
  pd_pos :: vec3
  pd_vel :: vec3
  pd_life :: real
  pd_active :: bool

text \<open>An entry of the table \<^verbatim>\<open>camLocked\<close>.\<close>

record locked =
  l_th :: real
  l_ph :: real
  l_d :: real

definition camLocked :: "nat \<Rightarrow> locked" where
  "camLocked ch =
     (if ch = 0 then \<lparr>l_th = 0, l_ph = pi / 2 - 8 / 100, l_d = CAM_DIST\<rparr>
      else if ch = 1 then \<lparr>l_th = 3 / 10, l_ph = pi / 2, l_d = CAM_DIST + 15 / 10\<rparr>
      else if ch = 2 then \<lparr>l_th = 1 / 10, l_ph = pi / 2 - 12 / 100, l_d = CAM_DIST - 15 / 10\<rparr>
      else if ch = 3 then \<lparr>l_th = 0, l_ph = pi / 2 + 8 / 100, l_d = CAM_DIST - 3\<rparr>
      else \<lparr>l_th = 0, l_ph = pi / 2, l_d = CAM_DIST + 5 / 10\<rparr>)"

record engine =
  progress :: real
  isScrolling :: bool
  isDragging :: bool
  dragDX :: real
  dragDY :: real
  scrollVelocity :: real
  currentFov :: real
  camSph :: spherical
  camTarget :: spherical
  camUserTheta :: real
  camUserPhi :: real
  camFree :: bool
  camera_position :: vec3
  shakeOn :: bool
  shakeT :: real
  collisionDone :: bool
  collisionTime :: real
  collisionPt :: vec3
  collisionR :: real
  dA :: sat
  dB :: sat
  debrisP :: "particle list"
  kessler_uOp :: real

text \<open>\<^verbatim>\<open>_initDebris\<close>: each particle draws its life, its size and two colour values from
  \<^verbatim>\<open>prng(55)\<close>, in this order.\<close>

fun initDebrisP :: "nat \<Rightarrow> 32 word \<Rightarrow> particle list" where
  "initDebrisP 0 g = []"
| "initDebrisP (Suc n) g =
     (let g1 = prng_next g; g4 = prng_next (prng_next (prng_next g1))
      in \<lparr>pd_pos = Vector3 0 0 0, pd_vel = Vector3 0 0 0, pd_life = prng_out g1,
           pd_active = False\<rparr> # initDebrisP n g4)"

text \<open>The state the constructor leaves: \<^verbatim>\<open>_shakeOn\<close> is still undefined (falsy) and
  \<^verbatim>\<open>_shakeT\<close> is read only once \<^verbatim>\<open>_shakeOn\<close> has been set.\<close>

definition engine_init :: engine where
  "engine_init =
     \<lparr>progress = 0, isScrolling = True, isDragging = False, dragDX = 0, dragDY = 0,
      scrollVelocity = 0, currentFov = FOV_MAP 0,
      camSph = \<lparr>sph_radius = CAM_DIST, sph_phi = pi / 2 - 8 / 100, sph_theta = 0\<rparr>,
      camTarget = \<lparr>sph_radius = CAM_DIST, sph_phi = pi / 2 - 8 / 100, sph_theta = 0\<rparr>,
      camUserTheta = 0, camUserPhi = 0, camFree = False,
      camera_position =
        setFromSpherical \<lparr>sph_radius = CAM_DIST, sph_phi = pi / 2 - 8 / 100, sph_theta = 0\<rparr>,
      shakeOn = False, shakeT = 0,
      collisionDone = False, collisionTime = 0, collisionPt = Vector3 0 0 0, collisionR = 0,
      dA = \<lparr>sat_r = EARTH_RADIUS * (142 / 100), sat_inc = 35 / 100, sat_asc = 4 / 10,
            sat_phase = 0, sat_speed = 2 / 10\<rparr>,
      dB = \<lparr>sat_r = EARTH_RADIUS * (142 / 100), sat_inc = - (3 / 10), sat_asc = 4 / 10,
            sat_phase = pi * (82 / 100), sat_speed = 23 / 100\<rparr>,
      debrisP = initDebrisP DEBRIS_N 55, kessler_uOp = 0\<rparr>"

subsection \<open>Camera: \<^verbatim>\<open>_cam\<close>\<close>

text \<open>The shake offsets added to \<^verbatim>\<open>camera.position.x\<close> and \<^verbatim>\<open>.y\<close> at elapsed time
  \<open>el\<close> of the envelope.\<close>

definition shakeX :: "real \<Rightarrow> real \<Rightarrow> real" where
  "shakeX t el = (22 / 100 * exp (- el * (32 / 10))) *
                 (sin (t * 93) * (5 / 10) + sin (t * 47) * (3 / 10) + sin (t * 211) * (2 / 10))"

definition shakeY :: "real \<Rightarrow> real \<Rightarrow> real" where
  "shakeY t el = (22 / 100 * exp (- el * (32 / 10))) *
                 (sin (t * 78) * (45 / 100) + sin (t * 34) * (35 / 100) + sin (t * 157) * (2 / 10))"

definition cam :: "real \<Rightarrow> nat \<Rightarrow> real \<Rightarrow> engine \<Rightarrow> engine" where
  "cam t ch p3 s =
     (let fov = currentFov s + (FOV_MAP ch - currentFov s) * (22 / 1000);
          free = (\<not> isScrolling s);
          uth = (if free then (if isDragging s then camUserTheta s + dragDX s * (4 / 1000)
                               else camUserTheta s + 3 / 1000)
                 else camUserTheta s * (93 / 100));
          uph = (if free then (if isDragging s
                               then clamp (camUserPhi s - dragDY s * (4 / 1000))
                                          (- pi * (38 / 100)) (pi * (38 / 100))
                               else camUserPhi s)
                 else camUserPhi s * (93 / 100));
          L = camLocked ch;
          sp = setFromVector3 (multiplyScalar (addVectors (satPos (dA s) t) (satPos (dB s) t)) (1 / 2));
          th = (if ch = 3 then lerp (l_th L) (sph_theta sp) (p3 * (6 / 10)) else l_th L);
          ph = (if ch = 3 then lerp (l_ph L) (sph_phi sp) (p3 * (4 / 10)) else l_ph L);
          dist = (if ch = 3 then lerp (l_d L) (l_d L - 18 / 10) p3 else l_d L);
          tgt = \<lparr>sph_radius = dist, sph_phi = ph + uph, sph_theta = th + uth\<rparr>;
          c = camSph s;
          sph = \<lparr>sph_radius = sph_radius c + (sph_radius tgt - sph_radius c) * (35 / 1000),
                 sph_phi = clamp (sph_phi c + (sph_phi tgt - sph_phi c) * (35 / 1000))
                                 (15 / 100) (pi - 15 / 100),
                 sph_theta = sph_theta c + (sph_theta tgt - sph_theta c) * (35 / 1000)\<rparr>;
          pos0 = setFromSpherical sph;
          velSkew = scrollVelocity s * 15;
          pos1 = pos0\<lparr>vy := vy pos0 + velSkew * (3 / 10)\<rparr>;
          el = t - shakeT s;
          pos2 = (if shakeOn s \<and> \<not> el > 18 / 10
                  then pos1\<lparr>vx := vx pos1 + shakeX t el, vy := vy pos1 + shakeY t el\<rparr>
                  else pos1)
      in s\<lparr>currentFov := fov, camFree := free, camUserTheta := uth, camUserPhi := uph,
           camTarget := tgt, camSph := sph, camera_position := pos2,
           shakeOn := (shakeOn s \<and> \<not> el > 18 / 10)\<rparr>)"

subsection \<open>Collision state: \<^verbatim>\<open>_danger\<close>\<close>

text \<open>The re-initialisation of one debris particle at the trigger; \<open>g\<close> is the state of
  \<^verbatim>\<open>prng(1234)\<close> before the particle's ten draws (three for the jitter, three for the
  tangent, two for the speeds, two for the colour).\<close>

definition spawnDebris :: "vec3 \<Rightarrow> 32 word \<Rightarrow> particle \<Rightarrow> particle \<times> 32 word" where
  "spawnDebris cp g d =
     (let g1 = prng_next g; g2 = prng_next g1; g3 = prng_next g2; g4 = prng_next g3;
          g5 = prng_next g4; g6 = prng_next g5; g7 = prng_next g6; g8 = prng_next g7;
          g9 = prng_next g8; g10 = prng_next g9;
          pos = addVectors cp (Vector3 ((prng_out g1 - 1 / 2) * (8 / 100))
                                       ((prng_out g2 - 1 / 2) * (8 / 100))
                                       ((prng_out g3 - 1 / 2) * (8 / 100)));
          up = normalize pos;
          tn = normalize (crossVectors up (Vector3 (prng_out g4 - 1 / 2) (prng_out g5 - 1 / 2)
                                                     (prng_out g6 - 1 / 2)));
          vel = addVectors (multiplyScalar tn (12 / 10 + prng_out g7 * (45 / 10)))
                           (multiplyScalar up ((prng_out g8 - 1 / 2) * (6 / 10)))
      in (d\<lparr>pd_pos := pos, pd_vel := vel, pd_active := True\<rparr>, g10))"

fun spawnAll :: "vec3 \<Rightarrow> 32 word \<Rightarrow> particle list \<Rightarrow> particle list" where
  "spawnAll cp g [] = []"
| "spawnAll cp g (d # ds) = (let (d', g') = spawnDebris cp g d in d' # spawnAll cp g' ds)"

definition danger :: "real \<Rightarrow> nat \<Rightarrow> real \<Rightarrow> real \<Rightarrow> engine \<Rightarrow> engine" where
  "danger t ch p3 p4 s =
     (if ch < 3 then (if collisionDone s then s\<lparr>collisionDone := False\<rparr> else s)
      else
        (let pA = satPos (dA s) t; pB = satPos (dB s) t
         in if ch = 3 \<and> \<not> collisionDone s then s
            else if ch = 4 \<and> \<not> collisionDone s then
              (let pt = multiplyScalar (addVectors pA pB) (1 / 2)
               in s\<lparr>collisionDone := True, collisionTime := t, collisionPt := pt,
                    collisionR := vlength pt, debrisP := spawnAll pt 1234 (debrisP s),
                    shakeOn := True, shakeT := t\<rparr>)
            else s))"

subsection \<open>Debris: \<^verbatim>\<open>_debris\<close>\<close>

text \<open>The position after the velocity step of the frame.\<close>

definition integrate :: "real \<Rightarrow> particle \<Rightarrow> vec3" where
  "integrate dt d =
     (let decay = exp (- dt * (12 / 100))
      in Vector3 (vx (pd_pos d) + vx (pd_vel d) * decay * (1 / 100))
                 (vy (pd_pos d) + vy (pd_vel d) * decay * (1 / 100))
                 (vz (pd_pos d) + vz (pd_vel d) * decay * (1 / 100)))"

text \<open>The three clamps; all of them test the length \<open>len\<close> taken once, before the first.\<close>

definition clampShell :: "real \<Rightarrow> vec3 \<Rightarrow> vec3" where
  "clampShell R v =
     (let len = vlength v;
          v1 = (if len > R * (118 / 100) then setLength v (R * (118 / 100)) else v);
          v2 = (if len < R * (85 / 100) then setLength v1 (R * (85 / 100)) else v1)
      in if len < EARTH_RADIUS * (103 / 100) then setLength v2 (EARTH_RADIUS * (103 / 100)) else v2)"

definition debrisParticle :: "real \<Rightarrow> real \<Rightarrow> real \<Rightarrow> nat \<Rightarrow> particle \<Rightarrow> particle" where
  "debrisParticle t dt R i d =
     (if \<not> pd_active d then d
      else
        (let v = clampShell R (integrate dt d);
             drift = 35 / 1000 + pd_life d * (5 / 100)
         in d\<lparr>pd_pos := Vector3 (vx v + sin (t * drift + real i * (31 / 1000)) * (25 / 10000))
                                 (vy v)
                                 (vz v + cos (t * drift + real i * (7 / 10)) * (25 / 10000))\<rparr>))"

definition debris :: "real \<Rightarrow> nat \<Rightarrow> real \<Rightarrow> real \<Rightarrow> engine \<Rightarrow> engine" where
  "debris t ch p3 p4 s =
     (if ch \<ge> 4 \<and> collisionDone s then
        (let dt = max 0 (t - collisionTime s)
         in s\<lparr>debrisP := map (\<lambda>(i, d). debrisParticle t dt (collisionR s) i d)
                              (enumerate 0 (debrisP s)),
              kessler_uOp := clamp (p4 * 2) 0 (8 / 10)\<rparr>)
      else s\<lparr>kessler_uOp := 0\<rparr>)"

subsection \<open>The frame: \<^verbatim>\<open>_loop\<close>\<close>

text \<open>The calls of \<^verbatim>\<open>_loop\<close> that touch the modelled state, in the order of the source.\<close>

definition loop :: "real \<Rightarrow> engine \<Rightarrow> engine" where
  "loop t s =
     (let p = progress s;
          p3 = smootherstep (remap p P3 P4);
          p4 = smootherstep (remap p P4 1);
          ch = getChapter p
      in debris t ch p3 p4 (danger t ch p3 p4 (cam t ch p3 s)))"

text \<open>What \<^verbatim>\<open>ThreeCanvas\<close> hands to the setters before a frame, and the clock value \<open>t\<close>
  the frame reads.\<close>

record frame_input =
  fi_t :: real
  fi_progress :: real
  fi_scrolling :: bool
  fi_dragging :: bool
  fi_dragDX :: real
  fi_dragDY :: real
  fi_velocity :: real

definition frame :: "frame_input \<Rightarrow> engine \<Rightarrow> engine" where
  "frame fi s =
     loop (fi_t fi)
       (s\<lparr>progress := fi_progress fi, isScrolling := fi_scrolling fi, isDragging := fi_dragging fi,
          dragDX := fi_dragDX fi, dragDY := fi_dragDY fi, scrollVelocity := fi_velocity fi\<rparr>)"

fun run :: "frame_input list \<Rightarrow> engine \<Rightarrow> engine" where
  "run [] s = s"
| "run (f # fs) s = run fs (frame f s)"

text \<open>A frame at clock \<open>t\<close> and progress \<open>p\<close> while the page is being scrolled.\<close>

definition frameAt :: "real \<Rightarrow> real \<Rightarrow> frame_input" where
  "frameAt t p = \<lparr>fi_t = t, fi_progress = p, fi_scrolling = True, fi_dragging = False,
             fi_dragDX = 0, fi_dragDY = 0, fi_velocity = 0\<rparr>"

text \<open>The framing \<^verbatim>\<open>_cam\<close> aims at before the user offsets are added: the locked entry
  of the chapter, or in chapter 3 its blend towards the midpoint of the danger satellites.\<close>

definition camBase :: "real \<Rightarrow> nat \<Rightarrow> real \<Rightarrow> engine \<Rightarrow> spherical" where
  "camBase t ch p3 s =
     (let L = camLocked ch;
          sp = setFromVector3 (multiplyScalar (addVectors (satPos (dA s) t) (satPos (dB s) t)) (1 / 2))
      in \<lparr>sph_radius = (if ch = 3 then lerp (l_d L) (l_d L - 18 / 10) p3 else l_d L),
           sph_phi = (if ch = 3 then lerp (l_ph L) (sph_phi sp) (p3 * (4 / 10)) else l_ph L),
           sph_theta = (if ch = 3 then lerp (l_th L) (sph_theta sp) (p3 * (6 / 10)) else l_th L)\<rparr>)"

text \<open>A state as a trigger at clock 0 leaves it when the midpoint is \<open>(3, 0, 0)\<close>, with a
  single particle at the collision point moving tangentially.\<close>

definition debris_probe :: engine where
  "debris_probe =
     engine_init\<lparr>collisionDone := True, collisionTime := 0, collisionPt := Vector3 3 0 0,
                 collisionR := 3,
                 debrisP := [\<lparr>pd_pos = Vector3 3 0 0, pd_vel = Vector3 0 2 0, pd_life = 1 / 2,
                              pd_active = True\<rparr>]\<rparr>"

text \<open>The number of frames of a sequence on which the triggered flag goes from false to
  true.\<close>

fun triggers :: "frame_input list \<Rightarrow> engine \<Rightarrow> nat" where
  "triggers [] s = 0"
| "triggers (f # fs) s =
     (if \<not> collisionDone s \<and> collisionDone (frame f s) then 1 else 0) + triggers fs (frame f s)"

text \<open>The number of forward entries into the terminal chapter over a sequence of frames:
  the frames whose chapter is 4 while the chapter of the progress value the engine held
  before (that of the previous frame) was below 4.\<close>

fun entries :: "frame_input list \<Rightarrow> engine \<Rightarrow> nat" where
  "entries [] s = 0"
| "entries (f # fs) s =
     (if getChapter (progress s) < 4 \<and> getChapter (fi_progress f) = 4 then 1 else 0)
     + entries fs (frame f s)"

text \<open>The Kessler cloud opacity as a function of the progress value, as \<^verbatim>\<open>_debris\<close>
  sets it in the terminal chapter.\<close>

definition kesslerOp :: "real \<Rightarrow> real" where
  "kesslerOp p = clamp (smootherstep (remap p P4 1) * 2) 0 (8 / 10)"

text \<open>The real number \<^verbatim>\<open>_sats\<close> rounds in chapter 1.\<close>

definition visRamp :: "real \<Rightarrow> real" where
  "visRamp p = lerp 4 (real_of_int SAT_POOL) (outExpo (remap p P1 P2))"

section \<open>Properties of the pure helpers\<close>

lemma clamp_bounds: "lo \<le> hi \<Longrightarrow> lo \<le> clamp v lo hi \<and> clamp v lo hi \<le> hi"
  by (simp add: clamp_def)

lemma clamp_mono: "v \<le> w \<Longrightarrow> clamp v lo hi \<le> clamp w lo hi"
  by (auto simp: clamp_def max_def min_def)

lemma remap_bounds: "0 \<le> remap v a b \<and> remap v a b \<le> 1"
  unfolding remap_def using clamp_bounds [of 0 1] by simp

lemma remap_mono: "a < b \<Longrightarrow> v \<le> w \<Longrightarrow> remap v a b \<le> remap w a b"
  unfolding remap_def by (intro clamp_mono divide_right_mono) simp_all

lemma getChapter_le4: "getChapter p \<le> 4"
  by (simp add: getChapter_def)

lemma getChapter_mono: "p \<le> q \<Longrightarrow> getChapter p \<le> getChapter q"
  by (simp add: getChapter_def P1_def P2_def P3_def P4_def)


lemma getChapter_values: "getChapter (2 / 10) = 1 \<and> getChapter (19999 / 100000) = 0 \<and> getChapter 1 = 4"
  by (simp add: getChapter_def P1_def P2_def P3_def P4_def)

text \<open>
  Claim C5. For progress values \<open>p \<le> q\<close> (in particular inside \<open>[0,1]\<close>) the chapter
  of \<open>p\<close> is at most the chapter of \<open>q\<close>; every chapter is one of 0, 1, 2, 3, 4; and the
  chapter is 1 at 0.2, 0 at 0.19999 and 4 at 1.0.
\<close>

theorem chapterOf_monotone_range:
  assumes "p \<le> q"
  shows "getChapter p \<le> getChapter q \<and> getChapter p \<in> {0, 1, 2, 3, 4}
         \<and> getChapter (2 / 10) = 1 \<and> getChapter (19999 / 100000) = 0 \<and> getChapter 1 = 4"
proof -
  have "getChapter p \<in> {0, 1, 2, 3, 4}" by (simp add: getChapter_def)
  then show ?thesis using getChapter_mono [OF assms] getChapter_values by simp
qed

theorem chapterOf_monotone_range_witness:
  "(3 / 10 :: real) \<le> 7 / 10 \<and> getChapter (3 / 10) \<le> getChapter (7 / 10)
   \<and> getChapter (3 / 10) = 1 \<and> getChapter (7 / 10) = 3"
  using chapterOf_monotone_range [of "3 / 10" "7 / 10"]
  by (simp add: getChapter_def P1_def P2_def P3_def P4_def)

section \<open>Orbital kinematics\<close>

lemma orbit_sq_sum:
  fixes r :: real
  shows "(cos a * r * cos asc - sin a * r * cos inc * sin asc)
           * (cos a * r * cos asc - sin a * r * cos inc * sin asc)
         + (- (sin a * r) * sin inc) * (- (sin a * r) * sin inc)
         + (cos a * r * sin asc + sin a * r * cos inc * cos asc)
           * (cos a * r * sin asc + sin a * r * cos inc * cos asc)
         = r * r"
  using sin_cos_squared_add [of a] sin_cos_squared_add [of asc] sin_cos_squared_add [of inc]
  by algebra

lemma vlength_orbitPos: "vlength (orbitPos r inc asc a) = \<bar>r\<bar>"
proof -
  have "vlength (orbitPos r inc asc a) = sqrt (r * r)"
    unfolding vlength_def orbitPos_def Vector3_def Let_def
    by (simp only: vec3.simps orbit_sq_sum)
  then show ?thesis by simp
qed

text \<open>
  Claim C10. For a radius \<open>r \<ge> 0\<close> and any inclination, right ascension and angle, the
  point computed by \<^verbatim>\<open>orbitPos\<close> lies at distance exactly \<open>r\<close> from the world origin; so
  a satellite with that orbit radius is on the sphere of radius \<open>r\<close> at every time \<open>t\<close>.
\<close>

theorem orbitPos_preserves_radius:
  assumes "0 \<le> r"
  shows "vlength (orbitPos r inc asc a) = r
         \<and> vlength (satPos \<lparr>sat_r = r, sat_inc = inc, sat_asc = asc, sat_phase = ph,
                             sat_speed = sp\<rparr> t) = r"
  using assms by (simp add: satPos_def vlength_orbitPos)

theorem orbitPos_preserves_radius_witness:
  "(0 :: real) \<le> 3 \<and> vlength (orbitPos 3 (1 / 5) (4 / 5) 2) = 3
   \<and> vlength (satPos \<lparr>sat_r = 3, sat_inc = 1 / 5, sat_asc = 4 / 5, sat_phase = 1,
                       sat_speed = 2 / 10\<rparr> 7) = 3"
  using orbitPos_preserves_radius [of 3 "1 / 5" "4 / 5" 2 1 "2 / 10" 7] by simp

text \<open>Every pool satellite has such a radius, so it stays on its sphere.\<close>

lemma pool_satellite_on_sphere:
  assumes "o_r \<in> set ORBIT_DEFS_r" and "sat_r s = EARTH_RADIUS * o_r"
  shows "vlength (satPos s t) = sat_r s"
proof -
  have "0 \<le> o_r" using assms(1) by (auto simp: ORBIT_DEFS_r_def)
  then have "0 \<le> sat_r s" using assms(2) by (simp add: EARTH_RADIUS_def)
  then show ?thesis by (simp add: satPos_def vlength_orbitPos)
qed

section \<open>Satellite visible count\<close>

lemma outExpo_bounds:
  assumes "0 \<le> t"
  shows "0 \<le> outExpo t \<and> outExpo t \<le> 1"
proof -
  have "2 powr (- 10 * t) \<le> 2 powr 0" using assms by (intro powr_mono) simp_all
  moreover have "0 \<le> (2::real) powr (- 10 * t)" by simp
  ultimately show ?thesis by (simp add: outExpo_def)
qed

lemma outExpo_mono:
  assumes "x \<le> y" and "y \<le> 1"
  shows "outExpo x \<le> outExpo y"
proof -
  have pos: "0 \<le> (2::real) powr (- 10 * x)" by simp
  have "(2::real) powr (- 10 * y) \<le> 2 powr (- 10 * x)" using assms by (intro powr_mono) simp_all
  then show ?thesis using pos assms by (auto simp: outExpo_def)
qed

lemma lerp_mono: "a \<le> b \<Longrightarrow> s \<le> t \<Longrightarrow> lerp a b s \<le> lerp a b t"
  by (simp add: lerp_def mult_left_mono)

lemma Math_round_mono: "x \<le> y \<Longrightarrow> Math_round x \<le> Math_round y"
  by (simp add: Math_round_def floor_mono)

lemma visRamp_bounds: "4 \<le> visRamp p \<and> visRamp p \<le> 200"
proof -
  have r: "0 \<le> remap p P1 P2" using remap_bounds by simp
  have "lerp 4 200 0 \<le> lerp 4 200 (outExpo (remap p P1 P2))"
    using outExpo_bounds [OF r] by (intro lerp_mono) simp_all
  moreover have "lerp 4 200 (outExpo (remap p P1 P2)) \<le> lerp 4 200 1"
    using outExpo_bounds [OF r] by (intro lerp_mono) simp_all
  ultimately show ?thesis by (simp add: visRamp_def SAT_POOL_def lerp_def)
qed

lemma visRamp_mono: "p \<le> q \<Longrightarrow> visRamp p \<le> visRamp q"
  unfolding visRamp_def
  by (intro lerp_mono outExpo_mono remap_mono)
     (simp_all add: SAT_POOL_def P1_def P2_def remap_bounds)

lemma round_visRamp_bounds: "4 \<le> Math_round (visRamp p) \<and> Math_round (visRamp p) \<le> 200"
proof -
  have "Math_round 4 \<le> Math_round (visRamp p)"
    using visRamp_bounds by (intro Math_round_mono) simp
  moreover have "Math_round (visRamp p) \<le> Math_round 200"
    using visRamp_bounds by (intro Math_round_mono) simp
  moreover have "Math_round 4 = 4" "Math_round 200 = 200" by (simp_all add: Math_round_def)
  ultimately show ?thesis by simp
qed

lemma visibleCount_cases:
  "visibleCount p = (if p < P1 then 4 else if p < P2 then Math_round (visRamp p) else 200)"
  by (simp add: visibleCount_def vis_def getChapter_def visRamp_def SAT_POOL_def
                P1_def P2_def P3_def P4_def)

lemma visibleCount_bounds: "4 \<le> visibleCount p \<and> visibleCount p \<le> 200"
  using round_visRamp_bounds [of p] by (simp add: visibleCount_cases)

lemma visibleCount_mono: "p \<le> q \<Longrightarrow> visibleCount p \<le> visibleCount q"
  using round_visRamp_bounds [of p] round_visRamp_bounds [of q]
        Math_round_mono [OF visRamp_mono, of p q]
  by (auto simp: visibleCount_cases P1_def P2_def)

text \<open>
  Claim C4. The satellite visible count is non-decreasing in the progress value (so in
  particular within chapter 1), is 4 for a progress value of chapter 0 (below 0.2), is
  exactly the pool size 200 at the chapter-2 boundary 0.4, and is never negative and never
  above the pool size.
\<close>

theorem visible_count_ramp:
  assumes "p0 < 2 / 10" and "p \<le> q"
  shows "visibleCount p0 = 4 \<and> visibleCount p \<le> visibleCount q
         \<and> visibleCount (4 / 10) = 200
         \<and> 0 \<le> visibleCount p \<and> visibleCount p \<le> SAT_POOL \<and> SAT_POOL = 200"
  using assms visibleCount_mono [of p q] visibleCount_bounds [of p]
  by (simp add: visibleCount_cases P1_def P2_def SAT_POOL_def)

theorem visible_count_ramp_witness:
  "(1 / 10 :: real) < 2 / 10 \<and> (25 / 100 :: real) \<le> 3 / 10
   \<and> visibleCount (1 / 10) = 4 \<and> visibleCount (25 / 100) \<le> visibleCount (3 / 10)"
  using visible_count_ramp [of "1 / 10" "25 / 100" "3 / 10"] by simp

section \<open>Scroll tracker\<close>

lemma tick_raw: "sc_raw (tick s) = sc_raw s"
  by (simp add: tick_def Let_def)

lemma tick_smooth:
  "sc_smooth (tick s) - sc_raw s =
     (if \<bar>sc_raw s - sc_smooth s\<bar> < 3 / 100000 then 0
      else (1 - (if \<bar>sc_raw s - sc_smooth s\<bar> > 6 / 100 then 55 / 1000 else 28 / 1000))
           * (sc_smooth s - sc_raw s))"
  by (simp add: tick_def Let_def algebra_simps)

lemma tick_err: "\<bar>sc_smooth (tick s) - sc_raw s\<bar> \<le> (972 / 1000) * \<bar>sc_smooth s - sc_raw s\<bar>"
  unfolding tick_smooth by (simp add: abs_mult)

lemma tick_sign: "0 \<le> (sc_smooth (tick s) - sc_raw s) * (sc_smooth s - sc_raw s)"
  unfolding tick_smooth by (auto simp: zero_le_mult_iff)

lemma ticks_raw: "sc_raw (ticks n s) = sc_raw s"
  by (induction n arbitrary: s) (simp_all add: tick_raw)

lemma ticks_Suc: "ticks (Suc n) s = tick (ticks n s)"
  by (induction n arbitrary: s) simp_all

lemma ticks_err:
  "\<bar>sc_smooth (ticks n s) - sc_raw s\<bar> \<le> (972 / 1000) ^ n * \<bar>sc_smooth s - sc_raw s\<bar>"
proof (induction n arbitrary: s)
  case 0
  show ?case by simp
next
  case (Suc n)
  have "\<bar>sc_smooth (ticks n (tick s)) - sc_raw (tick s)\<bar>
        \<le> (972 / 1000) ^ n * \<bar>sc_smooth (tick s) - sc_raw (tick s)\<bar>"
    by (rule Suc.IH)
  also have "\<dots> \<le> (972 / 1000) ^ n * ((972 / 1000) * \<bar>sc_smooth s - sc_raw s\<bar>)"
    using tick_err [of s] by (intro mult_left_mono) (simp_all add: tick_raw)
  finally show ?case by (simp add: tick_raw mult.assoc)
qed

lemma ticks_err_step:
  "\<bar>sc_smooth (ticks (Suc n) s) - sc_raw s\<bar> \<le> \<bar>sc_smooth (ticks n s) - sc_raw s\<bar>"
proof -
  have "\<bar>sc_smooth (tick (ticks n s)) - sc_raw (ticks n s)\<bar>
        \<le> (972 / 1000) * \<bar>sc_smooth (ticks n s) - sc_raw (ticks n s)\<bar>"
    by (rule tick_err)
  also have "\<dots> \<le> \<bar>sc_smooth (ticks n s) - sc_raw (ticks n s)\<bar>" by simp
  finally show ?thesis by (simp only: ticks_Suc ticks_raw)
qed

lemma same_side:
  fixes x y z :: real
  assumes "0 \<le> x * y" and "0 \<le> y * z" and "y \<noteq> 0"
  shows "0 \<le> x * z"
  using assms by (auto simp: zero_le_mult_iff)

lemma ticks_sign: "0 \<le> (sc_smooth (ticks n s) - sc_raw s) * (sc_smooth s - sc_raw s)"
proof (induction n)
  case 0
  show ?case by simp
next
  case (Suc n)
  have a: "0 \<le> (sc_smooth (ticks (Suc n) s) - sc_raw s) * (sc_smooth (ticks n s) - sc_raw s)"
    using tick_sign [of "ticks n s"] by (simp only: ticks_Suc ticks_raw)
  show ?case
  proof (cases "sc_smooth (ticks n s) - sc_raw s = 0")
    case True
    then have "\<bar>sc_smooth (ticks (Suc n) s) - sc_raw s\<bar> \<le> 0"
      using ticks_err_step [of n s] by simp
    then show ?thesis by simp
  next
    case False
    then show ?thesis using a Suc.IH by (rule same_side [rotated 2])
  qed
qed

lemma ticks_converge:
  assumes "0 < eps"
  shows "\<exists>N. \<forall>n. \<bar>sc_smooth (ticks (N + n) s) - sc_raw s\<bar> < eps"
proof -
  let ?e = "\<bar>sc_smooth s - sc_raw s\<bar>"
  have "0 < eps / (?e + 1)" using assms by simp
  then obtain N where N: "(972 / 1000 :: real) ^ N < eps / (?e + 1)"
    using real_arch_pow_inv [of "eps / (?e + 1)" "972 / 1000"] by auto
  have "\<bar>sc_smooth (ticks (N + n) s) - sc_raw s\<bar> < eps" for n
  proof -
    have "(972 / 1000 :: real) ^ (N + n) \<le> (972 / 1000) ^ N"
      by (intro power_decreasing) simp_all
    then have "(972 / 1000 :: real) ^ (N + n) * ?e \<le> (972 / 1000) ^ N * ?e"
      by (intro mult_right_mono) simp_all
    also have "\<dots> \<le> (972 / 1000) ^ N * (?e + 1)" by (intro mult_left_mono) simp_all
    also have "\<dots> < eps" using N by (simp add: pos_less_divide_eq)
    finally show ?thesis using ticks_err [of "N + n" s] by linarith
  qed
  then show ?thesis by blast
qed

text \<open>
  Claim C8. With the raw value held constant (no scroll event between the frames), for
  every \<open>eps > 0\<close> there is a number of frames \<open>N\<close> after which the smoothed value stays
  within \<open>eps\<close> of the raw value; the error after \<open>n\<close> frames is at most \<open>0.972^n\<close> times
  the initial error and never grows from one frame to the next; and the smoothed value
  never crosses the raw value (the error keeps its sign or is zero), so there is no
  overshoot and no oscillation.
\<close>

theorem smoothing_converges:
  assumes "0 < eps"
  shows "(\<exists>N. \<forall>n. \<bar>sc_smooth (ticks (N + n) s) - sc_raw s\<bar> < eps)
       \<and> \<bar>sc_smooth (ticks n s) - sc_raw s\<bar> \<le> (972 / 1000) ^ n * \<bar>sc_smooth s - sc_raw s\<bar>
       \<and> \<bar>sc_smooth (ticks (Suc n) s) - sc_raw s\<bar> \<le> \<bar>sc_smooth (ticks n s) - sc_raw s\<bar>
       \<and> 0 \<le> (sc_smooth (ticks n s) - sc_raw s) * (sc_smooth s - sc_raw s)
       \<and> sc_raw (ticks n s) = sc_raw s"
  using ticks_converge [OF assms] ticks_err ticks_err_step ticks_sign ticks_raw by blast

theorem smoothing_converges_witness:
  "(0 :: real) < 1 / 100
   \<and> (\<exists>N. \<forall>n. \<bar>sc_smooth (ticks (N + n) (scroll_init\<lparr>sc_raw := 1\<rparr>)) - 1\<bar> < 1 / 100)"
  using smoothing_converges [of "1 / 100" "scroll_init\<lparr>sc_raw := 1\<rparr>" 0] by simp

lemma onScroll_raw: "0 \<le> sc_raw (onScroll y m s) \<and> sc_raw (onScroll y m s) \<le> 1"
  using clamp_bounds [of 0 1 "y / m"] by (simp add: onScroll_def)

lemma onScroll_smooth: "sc_smooth (onScroll y m s) = sc_smooth s"
  by (simp add: onScroll_def)

lemma tick_unit:
  assumes "0 \<le> sc_raw s" "sc_raw s \<le> 1" "0 \<le> sc_smooth s" "sc_smooth s \<le> 1"
  shows "0 \<le> sc_smooth (tick s) \<and> sc_smooth (tick s) \<le> 1"
proof -
  have "sc_smooth (tick s) = sc_raw s
      \<or> sc_smooth (tick s) = (1 - 55 / 1000) * sc_smooth s + (55 / 1000) * sc_raw s
      \<or> sc_smooth (tick s) = (1 - 28 / 1000) * sc_smooth s + (28 / 1000) * sc_raw s"
    by (simp add: tick_def Let_def algebra_simps)
  then show ?thesis using assms by auto
qed

lemma scroll_step_unit: "unit_scroll s \<Longrightarrow> unit_scroll (scroll_step s e)"
proof (cases e)
  case (Scroll y m)
  assume "unit_scroll s"
  then show ?thesis using onScroll_raw [of y m s]
    by (simp add: unit_scroll_def Scroll onScroll_smooth)
next
  case Frame
  assume "unit_scroll s"
  then show ?thesis using tick_unit [of s]
    by (simp add: unit_scroll_def Frame tick_raw)
qed

lemma scroll_run_unit: "unit_scroll s \<Longrightarrow> unit_scroll (scroll_run evs s)"
  unfolding scroll_run_def
  by (induction evs arbitrary: s) (simp_all add: scroll_step_unit)

text \<open>
  Claim C9. A scroll event always leaves the raw value in \<open>[0,1]\<close>; a smoothing step from
  raw and smoothed values in \<open>[0,1]\<close> leaves the smoothed value in \<open>[0,1]\<close> and the raw
  value unchanged; hence after any sequence of scroll events and frames from the initial
  state both values lie in \<open>[0,1]\<close>.
\<close>

theorem scroll_values_in_unit_interval:
  assumes "0 \<le> sc_raw s" "sc_raw s \<le> 1" "0 \<le> sc_smooth s" "sc_smooth s \<le> 1"
  shows "0 \<le> sc_raw (onScroll scrollY mx s0) \<and> sc_raw (onScroll scrollY mx s0) \<le> 1
       \<and> 0 \<le> sc_smooth (tick s) \<and> sc_smooth (tick s) \<le> 1 \<and> sc_raw (tick s) = sc_raw s
       \<and> 0 \<le> sc_raw (scroll_run evs scroll_init) \<and> sc_raw (scroll_run evs scroll_init) \<le> 1
       \<and> 0 \<le> sc_smooth (scroll_run evs scroll_init)
       \<and> sc_smooth (scroll_run evs scroll_init) \<le> 1"
proof -
  have "unit_scroll scroll_init" by (simp add: unit_scroll_def scroll_init_def)
  then have "unit_scroll (scroll_run evs scroll_init)" by (rule scroll_run_unit)
  then show ?thesis
    using onScroll_raw [of scrollY mx s0] tick_unit [OF assms] tick_raw [of s]
    by (simp add: unit_scroll_def)
qed

theorem scroll_values_in_unit_interval_witness:
  "(0 :: real) \<le> 1 \<and> (0 :: real) \<le> 0
   \<and> 0 \<le> sc_smooth (tick (scroll_init\<lparr>sc_raw := 1\<rparr>))
   \<and> sc_smooth (tick (scroll_init\<lparr>sc_raw := 1\<rparr>)) \<le> 1
   \<and> sc_raw (onScroll 1500 1000 scroll_init) \<le> 1
   \<and> sc_smooth (scroll_run [Scroll 1500 1000, Frame, Scroll (- 20) 1000, Frame] scroll_init) \<le> 1"
  using scroll_values_in_unit_interval
          [of "scroll_init\<lparr>sc_raw := 1\<rparr>" 1500 1000 scroll_init
              "[Scroll 1500 1000, Frame, Scroll (- 20) 1000, Frame]"]
  by (simp add: scroll_init_def)


section \<open>Collision state machine\<close>

lemma cam_keeps:
  "collisionDone (cam t ch p3 s) = collisionDone s"
  "collisionTime (cam t ch p3 s) = collisionTime s"
  "collisionPt (cam t ch p3 s) = collisionPt s"
  "collisionR (cam t ch p3 s) = collisionR s"
  "dA (cam t ch p3 s) = dA s"
  "dB (cam t ch p3 s) = dB s"
  "debrisP (cam t ch p3 s) = debrisP s"
  "progress (cam t ch p3 s) = progress s"
  by (simp_all add: cam_def Let_def)

lemma danger_keeps:
  "dA (danger t ch p3 p4 s) = dA s"
  "dB (danger t ch p3 p4 s) = dB s"
  "progress (danger t ch p3 p4 s) = progress s"
  "camera_position (danger t ch p3 p4 s) = camera_position s"
  "camSph (danger t ch p3 p4 s) = camSph s"
  by (simp_all add: danger_def Let_def)

lemma danger_flag:
  "ch \<le> 4 \<Longrightarrow> collisionDone (danger t ch p3 p4 s) =
     (if ch = 4 then True else if ch < 3 then False else collisionDone s)"
  by (auto simp: danger_def Let_def)

lemma danger_trigger:
  assumes "\<not> collisionDone s"
  shows "collisionTime (danger t 4 p3 p4 s) = t"
    and "collisionPt (danger t 4 p3 p4 s) = multiplyScalar (addVectors (satPos (dA s) t) (satPos (dB s) t)) (1 / 2)"
    and "collisionR (danger t 4 p3 p4 s) = vlength (collisionPt (danger t 4 p3 p4 s))"
  using assms by (simp_all add: danger_def Let_def)

lemma danger_hold:
  assumes "collisionDone s" and "3 \<le> ch"
  shows "danger t ch p3 p4 s = s"
  using assms by (simp add: danger_def Let_def)

lemma debris_keeps:
  "collisionDone (debris t ch p3 p4 s) = collisionDone s"
  "collisionTime (debris t ch p3 p4 s) = collisionTime s"
  "collisionPt (debris t ch p3 p4 s) = collisionPt s"
  "collisionR (debris t ch p3 p4 s) = collisionR s"
  "dA (debris t ch p3 p4 s) = dA s"
  "dB (debris t ch p3 p4 s) = dB s"
  "progress (debris t ch p3 p4 s) = progress s"
  "camera_position (debris t ch p3 p4 s) = camera_position s"
  "camSph (debris t ch p3 p4 s) = camSph s"
  by (simp_all add: debris_def Let_def)

lemma frame_flag:
  "collisionDone (frame f s) =
     (if getChapter (fi_progress f) = 4 then True
      else if getChapter (fi_progress f) < 3 then False else collisionDone s)"
  using getChapter_le4 [of "fi_progress f"]
  by (simp add: frame_def loop_def Let_def debris_keeps danger_flag cam_keeps)

lemma frame_dAB: "dA (frame f s) = dA s" "dB (frame f s) = dB s"
  by (simp_all add: frame_def loop_def Let_def debris_keeps danger_keeps cam_keeps)

lemma frame_trigger:
  assumes "\<not> collisionDone s" and "getChapter (fi_progress f) = 4"
  shows "collisionTime (frame f s) = fi_t f"
    and "collisionPt (frame f s) =
           multiplyScalar (addVectors (satPos (dA s) (fi_t f)) (satPos (dB s) (fi_t f))) (1 / 2)"
  using assms
  by (simp_all add: frame_def loop_def Let_def debris_keeps danger_trigger cam_keeps)

lemma frame_hold:
  assumes "collisionDone s" and "getChapter (fi_progress f) = 4"
  shows "collisionTime (frame f s) = collisionTime s"
    and "collisionPt (frame f s) = collisionPt s"
    and "collisionR (frame f s) = collisionR s"
  using assms
  by (simp_all add: frame_def loop_def Let_def debris_keeps danger_hold cam_keeps)


lemma frame_progress: "progress (frame f s) = fi_progress f"
  by (simp add: frame_def loop_def Let_def debris_keeps danger_keeps cam_keeps)

lemma frame_hold3:
  assumes "collisionDone s" and "3 \<le> getChapter (fi_progress f)"
  shows "collisionTime (frame f s) = collisionTime s"
    and "collisionPt (frame f s) = collisionPt s"
  using assms
  by (simp_all add: frame_def loop_def Let_def debris_keeps danger_hold cam_keeps)

lemma run_hold:
  assumes "collisionDone s" and "\<forall>g \<in> set fs. 3 \<le> getChapter (fi_progress g)"
  shows "collisionDone (run fs s) \<and> collisionTime (run fs s) = collisionTime s
         \<and> collisionPt (run fs s) = collisionPt s \<and> triggers fs s = 0"
  using assms
proof (induction fs arbitrary: s)
  case Nil
  then show ?case by simp
next
  case (Cons g fs)
  have g3: "3 \<le> getChapter (fi_progress g)" using Cons.prems by simp
  have d: "collisionDone (frame g s)" using g3 Cons.prems(1) by (simp add: frame_flag)
  have "collisionDone (run fs (frame g s))
        \<and> collisionTime (run fs (frame g s)) = collisionTime (frame g s)
        \<and> collisionPt (run fs (frame g s)) = collisionPt (frame g s)
        \<and> triggers fs (frame g s) = 0"
    using Cons.prems d by (intro Cons.IH) simp_all
  then show ?case using Cons.prems(1) g3 by (simp add: frame_hold3)
qed

lemma run_append: "run (xs @ ys) s = run ys (run xs s)"
  by (induction xs arbitrary: s) simp_all

lemma triggers_append: "triggers (xs @ ys) s = triggers xs s + triggers ys (run xs s)"
  by (induction xs arbitrary: s) simp_all

lemma run_dAB: "dA (run fs s) = dA s" "dB (run fs s) = dB s"
  by (induction fs arbitrary: s) (simp_all add: frame_dAB)

text \<open>
  A second forward entry does not fire while the flag is still set: with frames at
  progress 0.85, 0.7 and 0.85 (chapters 4, 3, 4) the terminal chapter is entered twice,
  but the trigger fires once and the recorded time is still that of the first entry.
\<close>

theorem collision_trigger_reentry_counterexample:
  "getChapter (85 / 100) = 4 \<and> getChapter (7 / 10) = 3
   \<and> entries [frameAt 1 (85 / 100), frameAt 2 (7 / 10), frameAt 3 (85 / 100)] engine_init = 2
   \<and> triggers [frameAt 1 (85 / 100), frameAt 2 (7 / 10), frameAt 3 (85 / 100)] engine_init = 1
   \<and> triggers [frameAt 1 (85 / 100), frameAt 2 (7 / 10), frameAt 3 (85 / 100)] engine_init
       \<noteq> entries [frameAt 1 (85 / 100), frameAt 2 (7 / 10), frameAt 3 (85 / 100)] engine_init
   \<and> collisionTime (run [frameAt 1 (85 / 100), frameAt 2 (7 / 10), frameAt 3 (85 / 100)]
                         engine_init) = 1"
proof -
  define f1 where "f1 = frameAt 1 (85 / 100)"
  define f2 where "f2 = frameAt 2 (7 / 10)"
  define f3 where "f3 = frameAt 3 (85 / 100)"
  have c: "getChapter (fi_progress f1) = 4" "getChapter (fi_progress f2) = 3"
    "getChapter (fi_progress f3) = 4" "fi_t f1 = 1"
    by (simp_all add: f1_def f2_def f3_def frameAt_def getChapter_def P1_def P2_def P3_def P4_def)
  have g: "getChapter (85 / 100) = 4" "getChapter (7 / 10) = 3"
    by (simp_all add: getChapter_def P1_def P2_def P3_def P4_def)
  have i: "\<not> collisionDone engine_init" "getChapter (progress engine_init) = 0"
    by (simp_all add: engine_init_def getChapter_def P1_def)
  have d1: "collisionDone (frame f1 engine_init)" by (simp add: frame_flag c)
  have d2: "collisionDone (frame f2 (frame f1 engine_init))" using d1 by (simp add: frame_flag c)
  have d3: "collisionDone (frame f3 (frame f2 (frame f1 engine_init)))"
    by (simp add: frame_flag c)
  have e: "entries [f1, f2, f3] engine_init = 2"
    by (simp add: frame_progress c i)
  have t: "triggers [f1, f2, f3] engine_init = 1"
    using i(1) d1 d2 d3 by simp
  have ne: "triggers [f1, f2, f3] engine_init \<noteq> entries [f1, f2, f3] engine_init"
    using e t by simp
  have t1: "collisionTime (frame f1 engine_init) = 1"
    using frame_trigger(1) [OF i(1) c(1)] c(4) by simp
  have t2: "collisionTime (frame f2 (frame f1 engine_init)) = 1"
    using frame_hold3(1) [OF d1, of f2] t1 c by simp
  have t3: "collisionTime (frame f3 (frame f2 (frame f1 engine_init))) = 1"
    using frame_hold3(1) [OF d2, of f3] t2 c by simp
  have r: "collisionTime (run [f1, f2, f3] engine_init) = 1" using t3 by simp
  show ?thesis
    using g e t ne r unfolding f1_def f2_def f3_def by blast
qed

text \<open>
  Claim C1, as the code has it. On a frame whose chapter is 4 while the triggered flag is
  false, the flag becomes true and the trigger time and the collision point are recorded:
  the point is the midpoint of the two danger satellites at the frame's clock value. On
  every later frame while the chapter stays at 3 or 4 the flag stays true and the recorded
  point and time stay fixed, so over such frames the trigger fires exactly once, however
  often the chapter goes from 3 back to 4. A frame whose chapter is below 3 clears the
  flag, and the next chapter-4 frame fires again, recording the midpoint at its own time.
\<close>

theorem collision_trigger_once_per_armed_entry:
  assumes "\<not> collisionDone s" and "getChapter (fi_progress f) = 4"
    and "\<forall>g \<in> set fs. 3 \<le> getChapter (fi_progress g)"
    and "getChapter (fi_progress b) < 3" and "getChapter (fi_progress f2) = 4"
  shows "collisionDone (frame f s) \<and> collisionTime (frame f s) = fi_t f
       \<and> collisionPt (frame f s) =
           multiplyScalar (addVectors (satPos (dA s) (fi_t f)) (satPos (dB s) (fi_t f))) (1 / 2)
       \<and> collisionDone (run fs (frame f s))
       \<and> collisionPt (run fs (frame f s)) = collisionPt (frame f s)
       \<and> collisionTime (run fs (frame f s)) = fi_t f
       \<and> triggers (f # fs) s = 1
       \<and> \<not> collisionDone (frame b (run fs (frame f s)))
       \<and> triggers (f # fs @ [b, f2]) s = 2
       \<and> collisionTime (run (f # fs @ [b, f2]) s) = fi_t f2
       \<and> collisionPt (run (f # fs @ [b, f2]) s) =
           multiplyScalar (addVectors (satPos (dA s) (fi_t f2)) (satPos (dB s) (fi_t f2))) (1 / 2)"
proof -
  let ?s1 = "run fs (frame f s)"
  let ?s2 = "frame b ?s1"
  have d: "collisionDone (frame f s)" using assms(2) by (simp add: frame_flag)
  note h = run_hold [OF d assms(3)]
  have first: "triggers (f # fs) s = 1" using h d assms(1) by simp
  have n2: "\<not> collisionDone ?s2" using assms(4) by (simp add: frame_flag)
  have d3: "collisionDone (frame f2 ?s2)" using assms(5) by (simp add: frame_flag)
  have tb: "triggers [b, f2] ?s1 = 1" using n2 d3 by simp
  have "triggers ((f # fs) @ [b, f2]) s = triggers (f # fs) s + triggers [b, f2] (run (f # fs) s)"
    by (rule triggers_append)
  then have second: "triggers (f # fs @ [b, f2]) s = 2" using first tb by simp
  have r: "run (f # fs @ [b, f2]) s = frame f2 ?s2" by (simp add: run_append)
  have ab: "dA ?s2 = dA s" "dB ?s2 = dB s" by (simp_all add: frame_dAB run_dAB)
  have time2: "collisionTime (frame f2 ?s2) = fi_t f2"
    by (rule frame_trigger(1) [OF n2 assms(5)])
  have pt2: "collisionPt (frame f2 ?s2) =
               multiplyScalar (addVectors (satPos (dA s) (fi_t f2)) (satPos (dB s) (fi_t f2))) (1 / 2)"
    using frame_trigger(2) [OF n2 assms(5)] by (simp only: ab)
  show ?thesis
    using h d first n2 second frame_trigger [OF assms(1,2)] time2 pt2
    unfolding r by simp
qed

theorem collision_trigger_once_per_armed_entry_witness:
  "\<not> collisionDone engine_init \<and> getChapter (fi_progress (frameAt 1 (81 / 100))) = 4
   \<and> 3 \<le> getChapter (fi_progress (frameAt 2 (95 / 100)))
   \<and> 3 \<le> getChapter (fi_progress (frameAt 3 (7 / 10)))
   \<and> 3 \<le> getChapter (fi_progress (frameAt 4 (85 / 100)))
   \<and> getChapter (fi_progress (frameAt 5 (5 / 10))) < 3
   \<and> getChapter (fi_progress (frameAt 6 (81 / 100))) = 4
   \<and> triggers [frameAt 1 (81 / 100), frameAt 2 (95 / 100), frameAt 3 (7 / 10),
                 frameAt 4 (85 / 100)] engine_init = 1
   \<and> collisionTime (run [frameAt 2 (95 / 100), frameAt 3 (7 / 10), frameAt 4 (85 / 100)]
                         (frame (frameAt 1 (81 / 100)) engine_init)) = 1
   \<and> triggers [frameAt 1 (81 / 100), frameAt 2 (95 / 100), frameAt 3 (7 / 10),
                 frameAt 4 (85 / 100), frameAt 5 (5 / 10), frameAt 6 (81 / 100)] engine_init = 2
   \<and> collisionTime (run [frameAt 1 (81 / 100), frameAt 2 (95 / 100), frameAt 3 (7 / 10),
                          frameAt 4 (85 / 100), frameAt 5 (5 / 10), frameAt 6 (81 / 100)]
                         engine_init) = 6"
proof -
  define f1 where "f1 = frameAt 1 (81 / 100)"
  define f2 where "f2 = frameAt 2 (95 / 100)"
  define f3 where "f3 = frameAt 3 (7 / 10)"
  define f4 where "f4 = frameAt 4 (85 / 100)"
  define f5 where "f5 = frameAt 5 (5 / 10)"
  define f6 where "f6 = frameAt 6 (81 / 100)"
  have c: "getChapter (fi_progress f1) = 4" "3 \<le> getChapter (fi_progress f2)"
    "3 \<le> getChapter (fi_progress f3)" "3 \<le> getChapter (fi_progress f4)"
    "getChapter (fi_progress f5) < 3" "getChapter (fi_progress f6) = 4"
    "fi_t f1 = 1" "fi_t f6 = 6"
    by (simp_all add: f1_def f2_def f3_def f4_def f5_def f6_def frameAt_def getChapter_def
                      P1_def P2_def P3_def P4_def)
  have i: "\<not> collisionDone engine_init" by (simp add: engine_init_def)
  have m: "\<forall>g \<in> set [f2, f3, f4]. 3 \<le> getChapter (fi_progress g)"
    using c(2,3,4) by simp
  have a: "f1 # [f2, f3, f4] @ [f5, f6] = [f1, f2, f3, f4, f5, f6]" by simp
  note w = collision_trigger_once_per_armed_entry [OF i c(1) m c(5) c(6), unfolded a]
  have w1: "triggers [f1, f2, f3, f4] engine_init = 1" using w by blast
  have "collisionTime (run [f2, f3, f4] (frame f1 engine_init)) = fi_t f1" using w by blast
  then have w2: "collisionTime (run [f2, f3, f4] (frame f1 engine_init)) = 1"
    by (simp only: c(7))
  have w3: "triggers [f1, f2, f3, f4, f5, f6] engine_init = 2" using w by blast
  have "collisionTime (run [f1, f2, f3, f4, f5, f6] engine_init) = fi_t f6" using w by blast
  then have w4: "collisionTime (run [f1, f2, f3, f4, f5, f6] engine_init) = 6"
    by (simp only: c(8))
  show ?thesis
    using i c(1-6) w1 w2 w3 w4 unfolding f1_def f2_def f3_def f4_def f5_def f6_def by blast
qed

section \<open>When the triggered flag is cleared\<close>

text \<open>
  The flag is not equivalent to "the chapter is 4": after a trigger at progress 0.85, a
  frame at progress 0.7 (chapter 3) leaves the flag set.
\<close>

theorem triggered_iff_terminal_counterexample:
  "\<not> (collisionDone (run [frameAt 1 (85 / 100), frameAt 2 (7 / 10)] engine_init)
       \<longleftrightarrow> getChapter (progress (run [frameAt 1 (85 / 100), frameAt 2 (7 / 10)] engine_init)) = 4)"
  by (simp add: frame_flag frame_progress frameAt_def getChapter_def P1_def P2_def P3_def P4_def)

text \<open>
  Claim C2, as the code has it. After a frame the triggered flag is true when the
  frame's chapter is 4, false when the chapter is below 3, and unchanged when the chapter
  is 3; so the flag goes from true to false exactly on a frame whose chapter is below 3
  while the flag is set.
\<close>

theorem triggered_flag_by_chapter:
  "collisionDone (frame f s) =
     (if getChapter (fi_progress f) = 4 then True
      else if getChapter (fi_progress f) < 3 then False else collisionDone s)
   \<and> ((collisionDone s \<and> \<not> collisionDone (frame f s))
        = (collisionDone s \<and> getChapter (fi_progress f) < 3))"
  by (auto simp: frame_flag)



section \<open>Debris clamp band\<close>

lemma vlength_nonneg: "0 \<le> vlength v"
  by (simp add: vlength_def)

lemma vlength_multiplyScalar: "vlength (multiplyScalar v c) = \<bar>c\<bar> * vlength v"
proof -
  have "vx v * c * (vx v * c) + vy v * c * (vy v * c) + vz v * c * (vz v * c)
        = (c * c) * (vx v * vx v + vy v * vy v + vz v * vz v)"
    by (simp add: algebra_simps)
  then show ?thesis
    by (simp add: vlength_def multiplyScalar_def Vector3_def real_sqrt_mult)
qed

lemma vlength_normalize: "vlength v \<noteq> 0 \<Longrightarrow> vlength (normalize v) = 1"
  using vlength_nonneg [of v] by (simp add: normalize_def vlength_multiplyScalar)

lemma vlength_setLength: "vlength v \<noteq> 0 \<Longrightarrow> vlength (setLength v l) = \<bar>l\<bar>"
  by (simp add: setLength_def vlength_multiplyScalar vlength_normalize)

lemma vlength_clampShell:
  assumes "0 < R" and "vlength v \<noteq> 0"
  shows "vlength (clampShell R v) =
           (if vlength v < EARTH_RADIUS * (103 / 100) then EARTH_RADIUS * (103 / 100)
            else if vlength v > R * (118 / 100) then R * (118 / 100)
            else if vlength v < R * (85 / 100) then R * (85 / 100)
            else vlength v)"
proof -
  let ?v1 = "if vlength v > R * (118 / 100) then setLength v (R * (118 / 100)) else v"
  let ?v2 = "if vlength v < R * (85 / 100) then setLength ?v1 (R * (85 / 100)) else ?v1"
  have v1: "vlength ?v1 = (if vlength v > R * (118 / 100) then R * (118 / 100) else vlength v)"
    using assms by (simp add: vlength_setLength)
  have v1nz: "vlength ?v1 \<noteq> 0" using assms v1 by auto
  have v2: "vlength ?v2 = (if vlength v < R * (85 / 100) then R * (85 / 100)
                           else if vlength v > R * (118 / 100) then R * (118 / 100) else vlength v)"
    using assms v1nz by (auto simp: vlength_setLength)
  have v2nz: "vlength ?v2 \<noteq> 0" using assms v2 by auto
  have E: "0 \<le> EARTH_RADIUS * (103 / 100)" by (simp add: EARTH_RADIUS_def)
  have "vlength (clampShell R v) =
          (if vlength v < EARTH_RADIUS * (103 / 100) then EARTH_RADIUS * (103 / 100) else vlength ?v2)"
    unfolding clampShell_def Let_def using v2nz E by (simp add: vlength_setLength)
  then show ?thesis using v2 assms by auto
qed

lemma vlength_triangle: "vlength (addVectors a b) \<le> vlength a + vlength b"
proof -
  let ?p = "sqrt ((vx a)\<^sup>2 + (vy a)\<^sup>2)" and ?q = "sqrt ((vx b)\<^sup>2 + (vy b)\<^sup>2)"
  have in2: "sqrt ((vx a + vx b)\<^sup>2 + (vy a + vy b)\<^sup>2) \<le> ?p + ?q"
    by (rule real_sqrt_sum_squares_triangle_ineq)
  have "(vx a + vx b)\<^sup>2 + (vy a + vy b)\<^sup>2 \<le> (?p + ?q)\<^sup>2"
  proof -
    have "(sqrt ((vx a + vx b)\<^sup>2 + (vy a + vy b)\<^sup>2))\<^sup>2 \<le> (?p + ?q)\<^sup>2"
      using in2 by (intro power_mono) simp_all
    then show ?thesis by simp
  qed
  then have "sqrt ((vx a + vx b)\<^sup>2 + (vy a + vy b)\<^sup>2 + (vz a + vz b)\<^sup>2)
             \<le> sqrt ((?p + ?q)\<^sup>2 + (vz a + vz b)\<^sup>2)"
    by simp
  also have "\<dots> \<le> sqrt (?p\<^sup>2 + (vz a)\<^sup>2) + sqrt (?q\<^sup>2 + (vz b)\<^sup>2)"
    by (rule real_sqrt_sum_squares_triangle_ineq)
  finally show ?thesis
    by (simp add: vlength_def addVectors_def Vector3_def power2_eq_square)
qed

lemma vlength_planar: "vlength (Vector3 dx 0 dz) \<le> \<bar>dx\<bar> + \<bar>dz\<bar>"
  using sqrt_sum_squares_le_sum_abs [of dx dz]
  by (simp add: vlength_def Vector3_def power2_eq_square)

lemma vlength_drift:
  assumes "\<bar>dx\<bar> \<le> e" and "\<bar>dz\<bar> \<le> e"
  shows "\<bar>vlength (Vector3 (vx v + dx) (vy v) (vz v + dz)) - vlength v\<bar> \<le> 2 * e"
proof -
  let ?w = "Vector3 (vx v + dx) (vy v) (vz v + dz)"
  have w: "?w = addVectors v (Vector3 dx 0 dz)" by (simp add: addVectors_def Vector3_def)
  have v: "v = addVectors ?w (Vector3 (- dx) 0 (- dz))" by (simp add: addVectors_def Vector3_def)
  have "vlength ?w \<le> vlength v + vlength (Vector3 dx 0 dz)"
    unfolding w by (rule vlength_triangle)
  moreover have "vlength v \<le> vlength ?w + vlength (Vector3 (- dx) 0 (- dz))"
    using vlength_triangle [of ?w "Vector3 (- dx) 0 (- dz)"] v by simp
  moreover have "vlength (Vector3 dx 0 dz) \<le> 2 * e" using vlength_planar [of dx dz] assms by simp
  moreover have "vlength (Vector3 (- dx) 0 (- dz)) \<le> 2 * e" using vlength_planar [of "- dx" "- dz"] assms by simp
  ultimately show ?thesis by linarith
qed


lemma debris_particles:
  assumes "collisionDone s" and "4 \<le> ch" and "i < length (debrisP s)"
  shows "debrisP (debris t ch p3 p4 s) ! i =
           debrisParticle t (max 0 (t - collisionTime s)) (collisionR s) i (debrisP s ! i)"
  using assms by (simp add: debris_def Let_def nth_enumerate_eq)

lemma debris_length: "length (debrisP (debris t ch p3 p4 s)) = length (debrisP s)"
  by (simp add: debris_def Let_def)

lemma debrisParticle_active:
  assumes "pd_active d"
  shows "pd_pos (debrisParticle t dt R i d) =
           (let v = clampShell R (integrate dt d)
            in Vector3 (vx v + sin (t * (35 / 1000 + pd_life d * (5 / 100)) + real i * (31 / 1000)) * (25 / 10000))
                       (vy v)
                       (vz v + cos (t * (35 / 1000 + pd_life d * (5 / 100)) + real i * (7 / 10)) * (25 / 10000)))"
  using assms by (simp add: debrisParticle_def Let_def)

lemma vlength_zero_iff: "vlength v = 0 \<longleftrightarrow> v = Vector3 0 0 0"
proof
  assume "vlength v = 0"
  then have "vx v * vx v + vy v * vy v + vz v * vz v = 0"
    by (simp add: vlength_def)
  then have "vx v = 0 \<and> vy v = 0 \<and> vz v = 0"
    by (simp add: add_nonneg_eq_0_iff)
  then show "v = Vector3 0 0 0" by (simp add: Vector3_def)
next
  assume "v = Vector3 0 0 0"
  then show "vlength v = 0" by (simp add: vlength_def Vector3_def)
qed

lemma debrisParticle_band:
  assumes "pd_active d" and "0 < R" and "integrate dt d \<noteq> Vector3 0 0 0"
  shows "(if vlength (integrate dt d) < EARTH_RADIUS * (103 / 100)
          then vlength (clampShell R (integrate dt d)) = EARTH_RADIUS * (103 / 100)
          else R * (85 / 100) \<le> vlength (clampShell R (integrate dt d))
               \<and> vlength (clampShell R (integrate dt d)) \<le> R * (118 / 100))
       \<and> \<bar>vlength (pd_pos (debrisParticle t dt R i d)) - vlength (clampShell R (integrate dt d))\<bar>
           \<le> 5 / 1000"
proof -
  have nz: "vlength (integrate dt d) \<noteq> 0" using assms(3) by (simp add: vlength_zero_iff)
  have band: "(if vlength (integrate dt d) < EARTH_RADIUS * (103 / 100)
          then vlength (clampShell R (integrate dt d)) = EARTH_RADIUS * (103 / 100)
          else R * (85 / 100) \<le> vlength (clampShell R (integrate dt d))
               \<and> vlength (clampShell R (integrate dt d)) \<le> R * (118 / 100))"
    using assms(2) by (auto simp: vlength_clampShell [OF assms(2) nz])
  have s: "\<bar>sin a * (25 / 10000)\<bar> \<le> 25 / 10000" for a :: real
    using abs_sin_le_one [of a] by (simp add: abs_mult)
  have c: "\<bar>cos a * (25 / 10000)\<bar> \<le> 25 / 10000" for a :: real
    using abs_cos_le_one [of a] by (simp add: abs_mult)
  have "\<bar>vlength (pd_pos (debrisParticle t dt R i d)) - vlength (clampShell R (integrate dt d))\<bar>
        \<le> 2 * (25 / 10000)"
    unfolding debrisParticle_active [OF assms(1)] Let_def
    by (rule vlength_drift [OF s c])
  then show ?thesis using band by simp
qed


lemma frame_particles:
  assumes "collisionDone s" and "getChapter (fi_progress f) = 4" and "i < length (debrisP s)"
  shows "debrisP (frame f s) ! i =
           debrisParticle (fi_t f) (max 0 (fi_t f - collisionTime s)) (collisionR s) i (debrisP s ! i)"
  using assms
  by (simp add: frame_def loop_def Let_def danger_hold cam_keeps debris_particles)

lemma debrisParticle_keeps_active: "pd_active (debrisParticle t dt R i d) = pd_active d"
  by (simp add: debrisParticle_def Let_def)

text \<open>In every state the engine reaches, \<^verbatim>\<open>collisionR\<close> is the length of the recorded
  collision point.\<close>

lemma frame_collisionR:
  assumes "collisionR s = vlength (collisionPt s)"
  shows "collisionR (frame f s) = vlength (collisionPt (frame f s))"
  using assms
  by (simp add: frame_def loop_def Let_def debris_keeps danger_def cam_keeps)

lemma run_collisionR:
  assumes "collisionR s = vlength (collisionPt s)"
  shows "collisionR (run fs s) = vlength (collisionPt (run fs s))"
  using assms by (induction fs arbitrary: s) (simp_all add: frame_collisionR)

lemma reachable_collisionR:
  "collisionR (run fs engine_init) = vlength (collisionPt (run fs engine_init))"
  by (rule run_collisionR) (simp add: engine_init_def vlength_def Vector3_def)

text \<open>
  Claim C3, as the code has it. On a frame of chapter 4 with the trigger in effect and a
  collision radius \<open>R > 0\<close>, for every active particle whose integrated position is not
  the world origin: right after the clamp its distance from the world origin (not from
  the collision point) is the planet floor \<open>1.03 \<sqdot> EARTH_RADIUS\<close> when the integrated
  distance was below that floor, and otherwise lies in \<open>[0.85 R, 1.18 R]\<close>; the drift
  added after the clamp changes the stored distance from the origin by at most 0.005. The
  particle stays active and \<open>R\<close> stays fixed.
\<close>

theorem debris_radial_band:
  assumes "collisionDone s" and "getChapter (fi_progress f) = 4" and "0 < collisionR s"
    and "i < length (debrisP s)" and "pd_active (debrisP s ! i)"
    and "integrate (max 0 (fi_t f - collisionTime s)) (debrisP s ! i) \<noteq> Vector3 0 0 0"
  shows "(let v = integrate (max 0 (fi_t f - collisionTime s)) (debrisP s ! i);
              q = clampShell (collisionR s) v;
              d' = debrisP (frame f s) ! i
          in (if vlength v < EARTH_RADIUS * (103 / 100)
              then vlength q = EARTH_RADIUS * (103 / 100)
              else collisionR s * (85 / 100) \<le> vlength q \<and> vlength q \<le> collisionR s * (118 / 100))
             \<and> \<bar>vlength (pd_pos d') - vlength q\<bar> \<le> 5 / 1000
             \<and> pd_active d' \<and> collisionR (frame f s) = collisionR s)"
proof -
  note b = debrisParticle_band [OF assms(5,3,6), of "fi_t f" i]
  from b have band:
    "if vlength (integrate (max 0 (fi_t f - collisionTime s)) (debrisP s ! i))
          < EARTH_RADIUS * (103 / 100)
     then vlength (clampShell (collisionR s)
                     (integrate (max 0 (fi_t f - collisionTime s)) (debrisP s ! i)))
          = EARTH_RADIUS * (103 / 100)
     else collisionR s * (85 / 100)
            \<le> vlength (clampShell (collisionR s)
                           (integrate (max 0 (fi_t f - collisionTime s)) (debrisP s ! i)))
          \<and> vlength (clampShell (collisionR s)
                         (integrate (max 0 (fi_t f - collisionTime s)) (debrisP s ! i)))
            \<le> collisionR s * (118 / 100)"
    by (rule conjunct1)
  from b have drift:
    "\<bar>vlength (pd_pos (debrisParticle (fi_t f) (max 0 (fi_t f - collisionTime s))
                            (collisionR s) i (debrisP s ! i)))
      - vlength (clampShell (collisionR s)
                   (integrate (max 0 (fi_t f - collisionTime s)) (debrisP s ! i)))\<bar>
     \<le> 5 / 1000"
    by (rule conjunct2)
  have act: "pd_active (debrisParticle (fi_t f) (max 0 (fi_t f - collisionTime s))
                          (collisionR s) i (debrisP s ! i))"
    using assms(5) by (simp only: debrisParticle_keeps_active)
  show ?thesis
    unfolding Let_def frame_particles [OF assms(1,2,4)]
    using band drift act frame_hold(3) [OF assms(1,2)] by blast
qed

lemma probe_integrate: "integrate 0 (debrisP debris_probe ! 0) = Vector3 3 (2 / 100) 0"
  by (simp add: debris_probe_def integrate_def Let_def Vector3_def)

theorem debris_radial_band_witness:
  "collisionDone debris_probe \<and> getChapter (fi_progress (frameAt 0 (9 / 10))) = 4
   \<and> 0 < collisionR debris_probe \<and> 0 < length (debrisP debris_probe)
   \<and> pd_active (debrisP debris_probe ! 0)
   \<and> integrate (max 0 (fi_t (frameAt 0 (9 / 10)) - collisionTime debris_probe))
                 (debrisP debris_probe ! 0) \<noteq> Vector3 0 0 0
   \<and> \<bar>vlength (pd_pos (debrisP (frame (frameAt 0 (9 / 10)) debris_probe) ! 0))
        - vlength (clampShell 3 (Vector3 3 (2 / 100) 0))\<bar> \<le> 5 / 1000"
proof -
  have h: "collisionDone debris_probe" "getChapter (fi_progress (frameAt 0 (9 / 10))) = 4"
    "0 < collisionR debris_probe" "0 < length (debrisP debris_probe)"
    "pd_active (debrisP debris_probe ! 0)"
    by (simp_all add: debris_probe_def frameAt_def getChapter_def P1_def P2_def P3_def P4_def)
  have t: "max 0 (fi_t (frameAt 0 (9 / 10)) - collisionTime debris_probe) = 0"
    by (simp add: debris_probe_def frameAt_def)
  have nz: "integrate (max 0 (fi_t (frameAt 0 (9 / 10)) - collisionTime debris_probe))
                 (debrisP debris_probe ! 0) \<noteq> Vector3 0 0 0"
    unfolding t probe_integrate by (simp add: Vector3_def)
  have R: "collisionR debris_probe = 3" by (simp add: debris_probe_def)
  show ?thesis
    using debris_radial_band [OF h nz] h nz
    unfolding Let_def t probe_integrate R by simp
qed

lemma clampShell_inside:
  assumes "R * (85 / 100) \<le> vlength v" and "vlength v \<le> R * (118 / 100)"
    and "EARTH_RADIUS * (103 / 100) \<le> vlength v"
  shows "clampShell R v = v"
  using assms by (simp add: clampShell_def Let_def)

lemma sqrt_between:
  fixes x lo hi :: real
  assumes "0 \<le> lo" and "lo * lo \<le> x" and "x \<le> hi * hi" and "0 \<le> hi"
  shows "lo \<le> sqrt x \<and> sqrt x \<le> hi"
proof -
  have "sqrt (lo * lo) \<le> sqrt x" using assms(2) by (rule real_sqrt_le_mono)
  moreover have "sqrt x \<le> sqrt (hi * hi)" using assms(3) by (rule real_sqrt_le_mono)
  ultimately show ?thesis using assms(1,4) by simp
qed

lemma probe_length: "3 \<le> vlength (Vector3 3 (2 / 100) 0) \<and> vlength (Vector3 3 (2 / 100) 0) \<le> 301 / 100"
  unfolding vlength_def Vector3_def vec3.simps
  by (rule sqrt_between) simp_all

lemma probe_frame:
  "pd_pos (debrisP (frame (frameAt 0 (9 / 10)) debris_probe) ! 0) = Vector3 3 (2 / 100) (25 / 10000)"
proof -
  have h: "collisionDone debris_probe" "getChapter (fi_progress (frameAt 0 (9 / 10))) = 4"
    "0 < length (debrisP debris_probe)"
    by (simp_all add: debris_probe_def frameAt_def getChapter_def P1_def P2_def P3_def P4_def)
  have c: "clampShell 3 (Vector3 3 (2 / 100) 0) = Vector3 3 (2 / 100) 0"
    using probe_length by (intro clampShell_inside) (simp_all add: EARTH_RADIUS_def)
  have a: "pd_active (debrisP debris_probe ! 0)" by (simp add: debris_probe_def)
  have R: "collisionR debris_probe = 3" "collisionTime debris_probe = 0"
    "fi_t (frameAt 0 (9 / 10)) = 0"
    by (simp_all add: debris_probe_def frameAt_def)
  show ?thesis
    unfolding frame_particles [OF h] debrisParticle_active [OF a] R
    by (simp only: diff_self max.idem probe_integrate c Let_def) (simp add: Vector3_def)
qed

text \<open>
  The band does not bound the distance from the collision point: a particle that starts
  at the collision point \<open>(3, 0, 0)\<close> is, after the frame, at distance about 0.02 from it,
  far below \<open>0.85 R = 2.55\<close>.
\<close>

theorem debris_distance_from_collision_point_counterexample:
  "collisionDone debris_probe \<and> getChapter (9 / 10) = 4
   \<and> pd_active (debrisP (frame (frameAt 0 (9 / 10)) debris_probe) ! 0)
   \<and> \<not> (collisionR (frame (frameAt 0 (9 / 10)) debris_probe) * (85 / 100)
          \<le> distanceTo (pd_pos (debrisP (frame (frameAt 0 (9 / 10)) debris_probe) ! 0))
                        (collisionPt (frame (frameAt 0 (9 / 10)) debris_probe)))"
proof -
  have h: "collisionDone debris_probe" "getChapter (fi_progress (frameAt 0 (9 / 10))) = 4"
    "0 < length (debrisP debris_probe)"
    by (simp_all add: debris_probe_def frameAt_def getChapter_def P1_def P2_def P3_def P4_def)
  have act: "pd_active (debrisP (frame (frameAt 0 (9 / 10)) debris_probe) ! 0)"
    unfolding frame_particles [OF h] by (simp add: debrisParticle_keeps_active debris_probe_def)
  have R: "collisionR (frame (frameAt 0 (9 / 10)) debris_probe) = 3"
    "collisionPt (frame (frameAt 0 (9 / 10)) debris_probe) = Vector3 3 0 0"
    using frame_hold [OF h(1,2)] by (simp_all add: debris_probe_def)
  have "distanceTo (Vector3 3 (2 / 100) (25 / 10000)) (Vector3 3 0 0) \<le> 1"
  proof -
    have "0 \<le> sqrt ((2 / 100) * (2 / 100) + (25 / 10000) * (25 / 10000) :: real)
          \<and> sqrt ((2 / 100) * (2 / 100) + (25 / 10000) * (25 / 10000) :: real) \<le> 1"
      by (rule sqrt_between) simp_all
    then show ?thesis by (simp add: distanceTo_def Vector3_def)
  qed
  then show ?thesis using h(1) act
    unfolding R probe_frame
    by (simp add: getChapter_def P1_def P2_def P3_def P4_def)
qed


text \<open>The drift is added after the clamp: a particle clamped to the outer radius
  \<open>1.18 R\<close> ends the frame just outside it.\<close>

lemma drift_leaves_band:
  "vlength (pd_pos (debrisParticle 0 0 3 0
      \<lparr>pd_pos = Vector3 4 0 0, pd_vel = Vector3 0 0 0, pd_life = 0, pd_active = True\<rparr>))
   > 3 * (118 / 100)"
proof -
  have len: "vlength (Vector3 4 0 0) = 4"
    using real_sqrt_abs2 [of 4] by (simp add: vlength_def Vector3_def)
  have i: "integrate 0 \<lparr>pd_pos = Vector3 4 0 0, pd_vel = Vector3 0 0 0, pd_life = 0, pd_active = True\<rparr>
           = Vector3 4 0 0"
    by (simp add: integrate_def Vector3_def)
  have c: "clampShell 3 (Vector3 4 0 0) = Vector3 (354 / 100) 0 0"
  proof -
    have len': "vlength \<lparr>vx = 4, vy = 0, vz = 0\<rparr> = 4"
      using len by (simp add: Vector3_def)
    show ?thesis
      unfolding clampShell_def Let_def len
      by (simp add: EARTH_RADIUS_def setLength_def normalize_def len' multiplyScalar_def Vector3_def)
  qed
  have p: "pd_pos (debrisParticle 0 0 3 0
      \<lparr>pd_pos = Vector3 4 0 0, pd_vel = Vector3 0 0 0, pd_life = 0, pd_active = True\<rparr>)
      = Vector3 (354 / 100) 0 (25 / 10000)"
    unfolding debrisParticle_def Let_def i c by (simp add: Vector3_def)
  have g: "3 * (118 / 100) < sqrt (354 / 100 * (354 / 100) + 0 * 0 + 25 / 10000 * (25 / 10000) :: real)"
    by (rule real_less_rsqrt) (simp add: power2_eq_square)
  have h: "3 * (118 / 100) < vlength (Vector3 (354 / 100) 0 (25 / 10000))"
    unfolding vlength_def Vector3_def vec3.simps by (rule g)
  show ?thesis by (subst p) (rule h)
qed

section \<open>Kessler cloud opacity\<close>

lemma smootherstep_deriv:
  "(smootherstep has_real_derivative (30 * (x * x) * ((x - 1) * (x - 1)))) (at x)"
  unfolding smootherstep_def
  by (auto intro!: derivative_eq_intros simp: algebra_simps)

lemma smootherstep_mono:
  assumes "a \<le> b"
  shows "smootherstep a \<le> smootherstep b"
proof (rule DERIV_nonneg_imp_nondecreasing [OF assms])
  fix x :: real
  have "0 \<le> 30 * (x * x) * ((x - 1) * (x - 1))" by simp
  then show "\<exists>y. (smootherstep has_real_derivative y) (at x) \<and> 0 \<le> y"
    using smootherstep_deriv by blast
qed

lemma kesslerOp_mono: "p \<le> q \<Longrightarrow> kesslerOp p \<le> kesslerOp q"
  unfolding kesslerOp_def
  by (intro clamp_mono mult_right_mono smootherstep_mono remap_mono) (simp_all add: P4_def)

lemma kesslerOp_cap: "0 \<le> kesslerOp p \<and> kesslerOp p \<le> 8 / 10"
  unfolding kesslerOp_def using clamp_bounds [of 0 "8 / 10"] by simp

lemma kesslerOp_values: "kesslerOp (9 / 10) = 8 / 10" "kesslerOp (82 / 100) = 1712 / 100000"
  by (simp_all add: kesslerOp_def remap_def clamp_def smootherstep_def P4_def)

lemma frame_kessler:
  "kessler_uOp (frame f s) =
     (if getChapter (fi_progress f) = 4 then kesslerOp (fi_progress f) else 0)"
  using getChapter_le4 [of "fi_progress f"]
  by (auto simp: frame_def loop_def Let_def debris_def danger_flag cam_keeps kesslerOp_def)

text \<open>
  Claim C6, as the code has it. After every frame the Kessler cloud opacity is between 0
  and 0.8, so strictly below full opacity; it is 0 outside chapter 4 and in chapter 4 it is
  \<open>clamp (2 \<sqdot> smootherstep ((p - 0.8) / 0.2)) 0 0.8\<close> of the frame's progress \<open>p\<close>
  alone, a non-decreasing function of \<open>p\<close>: scrolling backward within chapter 4 never
  raises the opacity and can lower it.
\<close>

theorem kessler_opacity_follows_progress:
  assumes "p \<le> q"
  shows "0 \<le> kessler_uOp (frame f s) \<and> kessler_uOp (frame f s) \<le> 8 / 10
       \<and> kessler_uOp (frame f s) < 1
       \<and> kessler_uOp (frame f s)
           = (if getChapter (fi_progress f) = 4 then kesslerOp (fi_progress f) else 0)
       \<and> kesslerOp p \<le> kesslerOp q"
  using kesslerOp_cap [of "fi_progress f"] kesslerOp_mono [OF assms]
  by (simp add: frame_kessler)

theorem kessler_opacity_follows_progress_witness:
  "(82 / 100 :: real) \<le> 9 / 10 \<and> kesslerOp (82 / 100) \<le> kesslerOp (9 / 10)
   \<and> kessler_uOp (frame (frameAt 1 (9 / 10)) engine_init) \<le> 8 / 10"
  using kessler_opacity_follows_progress [of "82 / 100" "9 / 10" "frameAt 1 (9 / 10)" engine_init]
  by simp

text \<open>
  Backward scrolling inside chapter 4 reduces the opacity: from 0.8 at progress 0.9 to
  0.01712 at progress 0.82.
\<close>

theorem kessler_opacity_backward_scroll_counterexample:
  "getChapter (9 / 10) = 4 \<and> getChapter (82 / 100) = 4
   \<and> 0 < kessler_uOp (run [frameAt 1 (9 / 10)] engine_init)
   \<and> kessler_uOp (run [frameAt 1 (9 / 10), frameAt 2 (82 / 100)] engine_init)
       < kessler_uOp (run [frameAt 1 (9 / 10)] engine_init)"
proof -
  have c: "getChapter (9 / 10) = 4" "getChapter (82 / 100) = 4"
    by (simp_all add: getChapter_def P1_def P2_def P3_def P4_def)
  have a: "kessler_uOp (run [frameAt 1 (9 / 10)] engine_init) = 8 / 10"
    using c(1) kesslerOp_values(1) by (simp add: frame_kessler frameAt_def)
  have b: "kessler_uOp (run [frameAt 1 (9 / 10), frameAt 2 (82 / 100)] engine_init)
           = 1712 / 100000"
    using c(2) kesslerOp_values(2) by (simp add: frame_kessler frameAt_def)
  show ?thesis unfolding a b using c by simp
qed

section \<open>Camera position\<close>

lemma cam_position:
  "camera_position (cam t ch p3 s) =
     (let b = setFromSpherical (camSph (cam t ch p3 s)); el = t - shakeT s
      in Vector3 (vx b + (if shakeOn s \<and> el \<le> 18 / 10 then shakeX t el else 0))
                 (vy b + scrollVelocity s * 15 * (3 / 10)
                       + (if shakeOn s \<and> el \<le> 18 / 10 then shakeY t el else 0))
                 (vz b))"
  by (simp add: cam_def Let_def Vector3_def not_less)

lemma cam_shake: "shakeT (cam t ch p3 s) = shakeT s"
  by (simp add: cam_def Let_def)

lemma frame_camSph:
  "camSph (frame f s) =
     camSph (cam (fi_t f) (getChapter (fi_progress f)) (smootherstep (remap (fi_progress f) P3 P4))
               (s\<lparr>progress := fi_progress f, isScrolling := fi_scrolling f, isDragging := fi_dragging f,
                  dragDX := fi_dragDX f, dragDY := fi_dragDY f, scrollVelocity := fi_velocity f\<rparr>))"
  by (simp add: frame_def loop_def Let_def debris_keeps danger_keeps)

lemma cam_target:
  "camTarget (cam t ch p3 s) =
     \<lparr>sph_radius = sph_radius (camBase t ch p3 s),
      sph_phi = sph_phi (camBase t ch p3 s) + camUserPhi (cam t ch p3 s),
      sph_theta = sph_theta (camBase t ch p3 s) + camUserTheta (cam t ch p3 s)\<rparr>"
  by (simp add: cam_def camBase_def Let_def)

lemma cam_rig:
  "camSph (cam t ch p3 s) =
     \<lparr>sph_radius = sph_radius (camSph s)
                    + (sph_radius (camTarget (cam t ch p3 s)) - sph_radius (camSph s)) * (35 / 1000),
      sph_phi = clamp (sph_phi (camSph s)
                       + (sph_phi (camTarget (cam t ch p3 s)) - sph_phi (camSph s)) * (35 / 1000))
                      (15 / 100) (pi - 15 / 100),
      sph_theta = sph_theta (camSph s)
                   + (sph_theta (camTarget (cam t ch p3 s)) - sph_theta (camSph s)) * (35 / 1000)\<rparr>"
  by (simp add: cam_def Let_def)

lemma frame_cam_fields:
  "camTarget (frame f s) =
     camTarget (cam (fi_t f) (getChapter (fi_progress f)) (smootherstep (remap (fi_progress f) P3 P4))
                  (s\<lparr>progress := fi_progress f, isScrolling := fi_scrolling f,
                     isDragging := fi_dragging f, dragDX := fi_dragDX f, dragDY := fi_dragDY f,
                     scrollVelocity := fi_velocity f\<rparr>))"
  "camUserPhi (frame f s) =
     camUserPhi (cam (fi_t f) (getChapter (fi_progress f)) (smootherstep (remap (fi_progress f) P3 P4))
                  (s\<lparr>progress := fi_progress f, isScrolling := fi_scrolling f,
                     isDragging := fi_dragging f, dragDX := fi_dragDX f, dragDY := fi_dragDY f,
                     scrollVelocity := fi_velocity f\<rparr>))"
  "camUserTheta (frame f s) =
     camUserTheta (cam (fi_t f) (getChapter (fi_progress f)) (smootherstep (remap (fi_progress f) P3 P4))
                  (s\<lparr>progress := fi_progress f, isScrolling := fi_scrolling f,
                     isDragging := fi_dragging f, dragDX := fi_dragDX f, dragDY := fi_dragDY f,
                     scrollVelocity := fi_velocity f\<rparr>))"
  by (simp_all add: frame_def loop_def Let_def debris_def danger_def)

lemma camBase_setters:
  "camBase t ch p3 (s\<lparr>progress := a, isScrolling := b, isDragging := c, dragDX := d, dragDY := e,
                      scrollVelocity := v\<rparr>) = camBase t ch p3 s"
  by (simp add: camBase_def)

lemma frame_camera_target:
  "camTarget (frame f s) =
     (let base = camBase (fi_t f) (getChapter (fi_progress f))
                   (smootherstep (remap (fi_progress f) P3 P4)) s
      in \<lparr>sph_radius = sph_radius base,
           sph_phi = sph_phi base + camUserPhi (frame f s),
           sph_theta = sph_theta base + camUserTheta (frame f s)\<rparr>)"
  unfolding frame_cam_fields Let_def by (simp only: cam_target camBase_setters)

lemma frame_camera_rig:
  "camSph (frame f s) =
     \<lparr>sph_radius = sph_radius (camSph s)
                    + (sph_radius (camTarget (frame f s)) - sph_radius (camSph s)) * (35 / 1000),
      sph_phi = clamp (sph_phi (camSph s)
                       + (sph_phi (camTarget (frame f s)) - sph_phi (camSph s)) * (35 / 1000))
                      (15 / 100) (pi - 15 / 100),
      sph_theta = sph_theta (camSph s)
                   + (sph_theta (camTarget (frame f s)) - sph_theta (camSph s)) * (35 / 1000)\<rparr>"
  unfolding frame_camSph frame_cam_fields by (subst cam_rig) simp

lemma frame_camera_position:
  "camera_position (frame f s) =
     (let b = setFromSpherical (camSph (frame f s)); el = fi_t f - shakeT s
      in Vector3 (vx b + (if shakeOn s \<and> el \<le> 18 / 10 then shakeX (fi_t f) el else 0))
                 (vy b + fi_velocity f * 15 * (3 / 10)
                       + (if shakeOn s \<and> el \<le> 18 / 10 then shakeY (fi_t f) el else 0))
                 (vz b))"
  unfolding frame_camSph
  by (simp add: frame_def loop_def Let_def debris_keeps danger_keeps cam_position)

text \<open>
  Claim C7, as the code has it. On every frame the camera's world position is the
  position derived from the rig's spherical coordinates, displaced vertically by
  \<open>scrollVelocity \<sqdot> 15 \<sqdot> 0.3\<close> and, while a shake envelope is active (at most 1.8 after
  its start), by the shake offsets in x and y. The rig moves 3.5 percent of the way to its
  target (polar angle clamped to \<open>[0.15, \<pi> - 0.15]\<close>), and the target is the chapter's
  framing plus the user azimuth and polar offsets.
\<close>

theorem camera_position_from_rig:
  "(let b = setFromSpherical (camSph (frame f s)); el = fi_t f - shakeT s;
        base = camBase (fi_t f) (getChapter (fi_progress f))
                 (smootherstep (remap (fi_progress f) P3 P4)) s
    in camera_position (frame f s) =
         Vector3 (vx b + (if shakeOn s \<and> el \<le> 18 / 10 then shakeX (fi_t f) el else 0))
                 (vy b + fi_velocity f * 15 * (3 / 10)
                       + (if shakeOn s \<and> el \<le> 18 / 10 then shakeY (fi_t f) el else 0))
                 (vz b)
       \<and> camTarget (frame f s) =
           \<lparr>sph_radius = sph_radius base,
            sph_phi = sph_phi base + camUserPhi (frame f s),
            sph_theta = sph_theta base + camUserTheta (frame f s)\<rparr>
       \<and> camSph (frame f s) =
           \<lparr>sph_radius = sph_radius (camSph s)
               + (sph_radius (camTarget (frame f s)) - sph_radius (camSph s)) * (35 / 1000),
            sph_phi = clamp (sph_phi (camSph s)
                             + (sph_phi (camTarget (frame f s)) - sph_phi (camSph s)) * (35 / 1000))
                            (15 / 100) (pi - 15 / 100),
            sph_theta = sph_theta (camSph s)
               + (sph_theta (camTarget (frame f s)) - sph_theta (camSph s)) * (35 / 1000)\<rparr>)"
  using frame_camera_position [of f s] frame_camera_target [of f s] frame_camera_rig [of f s]
  unfolding Let_def by blast

text \<open>
  With no shake active, a non-zero scroll velocity puts the camera off the position
  derived from the rig: at velocity 0.01 the height differs by 0.045.
\<close>

theorem camera_position_counterexample:
  "\<not> shakeOn engine_init
   \<and> camera_position (frame ((frameAt 1 (1 / 10))\<lparr>fi_velocity := 1 / 100\<rparr>) engine_init)
      \<noteq> setFromSpherical (camSph (frame ((frameAt 1 (1 / 10))\<lparr>fi_velocity := 1 / 100\<rparr>) engine_init))"
proof -
  let ?f = "(frameAt 1 (1 / 10))\<lparr>fi_velocity := 1 / 100\<rparr>"
  have n: "\<not> shakeOn engine_init" by (simp add: engine_init_def)
  have "vy (camera_position (frame ?f engine_init))
        = vy (setFromSpherical (camSph (frame ?f engine_init))) + 45 / 1000"
    unfolding frame_camera_position Let_def using n by (simp add: Vector3_def frameAt_def)
  then have "vy (camera_position (frame ?f engine_init))
        \<noteq> vy (setFromSpherical (camSph (frame ?f engine_init)))" by simp
  then show ?thesis using n by metis
qed


end
